theory Spec2Isabelle
  imports Main
begin

section \<open>Tables\<close>

text \<open>
  The program \<^verbatim>\<open>prerequisites.py\<close> works on two pandas tables: \<^verbatim>\<open>res\<close>, the academic
  records (several rows per student), and \<^verbatim>\<open>df\<close>, the roster, which it extends by one
  flag column per subject.

  A cell is a Python object: a string, an integer, a boolean (only the default of
  \<^verbatim>\<open>sget\<close> produces one) or a missing value (NaN). A table is its number of rows and its
  columns in order, each a name with one cell per row. Rows are addressed by position;
  index labels play no part, since every series the program combines comes from the same
  table. Cells are compared structurally, which is what \<^verbatim>\<open>==\<close>, \<^verbatim>\<open>!=\<close> and \<^verbatim>\<open>isin\<close> against
  string and integer constants do; integers stand for all numbers.
\<close>

datatype cell = Str string | Num int | Bool bool | NaN

type_synonym series = "cell list"
type_synonym mask = "bool list"

record frame =
  nrows :: nat
  columns :: "(string \<times> series) list"

datatype error = KeyError string

definition has_col :: "frame \<Rightarrow> string \<Rightarrow> bool" where
  \<comment> \<open>\<^verbatim>\<open>col in res\<close>\<close>
  "has_col f c = (map_of (columns f) c \<noteq> None)"

definition getcol :: "frame \<Rightarrow> string \<Rightarrow> error + series" where
  \<comment> \<open>\<^verbatim>\<open>res[col]\<close>: raises KeyError when the column is missing\<close>
  "getcol f c = (case map_of (columns f) c of None \<Rightarrow> Inl (KeyError c) | Some s \<Rightarrow> Inr s)"

fun upd_col :: "string \<Rightarrow> series \<Rightarrow> (string \<times> series) list \<Rightarrow> (string \<times> series) list" where
  "upd_col c v [] = [(c, v)]"
| "upd_col c v ((n, s) # ps) = (if n = c then (c, v) # ps else (n, s) # upd_col c v ps)"

definition assign :: "frame \<Rightarrow> string \<Rightarrow> series \<Rightarrow> frame" where
  \<comment> \<open>\<^verbatim>\<open>df[colname] = values\<close>: an existing column is overwritten where it stands, a new
      one is appended\<close>
  "assign f c v = f\<lparr>columns := upd_col c v (columns f)\<rparr>"

definition wf_frame :: "frame \<Rightarrow> bool" where
  \<comment> \<open>what every pandas table satisfies: one cell per row in every column, and (assumed
      here) no column name twice\<close>
  "wf_frame f = (list_all (\<lambda>p. length (snd p) = nrows f) (columns f) \<and> distinct (map fst (columns f)))"

section \<open>Series and masks\<close>

definition isin :: "series \<Rightarrow> string list \<Rightarrow> mask" where
  \<comment> \<open>\<^verbatim>\<open>s.isin([...])\<close> with a list of strings\<close>
  "isin s vs = map (\<lambda>c. case c of Str x \<Rightarrow> x \<in> set vs | _ \<Rightarrow> False) s"

definition eq_str :: "series \<Rightarrow> string \<Rightarrow> mask" where
  \<comment> \<open>\<^verbatim>\<open>s == 'v'\<close>\<close>
  "eq_str s v = map (\<lambda>c. c = Str v) s"

definition ne_str :: "series \<Rightarrow> string \<Rightarrow> mask" where
  \<comment> \<open>\<^verbatim>\<open>s != 'v'\<close>: true of every cell that is not that string, a missing value and the
      boolean False included\<close>
  "ne_str s v = map (\<lambda>c. c \<noteq> Str v) s"

definition eq_num :: "series \<Rightarrow> int \<Rightarrow> mask" where
  \<comment> \<open>\<^verbatim>\<open>s == 6\<close>\<close>
  "eq_num s k = map (\<lambda>c. c = Num k) s"

definition mand :: "mask \<Rightarrow> mask \<Rightarrow> mask" where
  "mand a b = map (\<lambda>(x, y). x \<and> y) (zip a b)"

definition mor :: "mask \<Rightarrow> mask \<Rightarrow> mask" where
  "mor a b = map (\<lambda>(x, y). x \<or> y) (zip a b)"

definition sget :: "frame \<Rightarrow> string \<Rightarrow> cell \<Rightarrow> series" where
  \<comment> \<open>the safe column getter: the column, or the default once per row\<close>
  "sget res col dflt =
     (case map_of (columns res) col of Some s \<Rightarrow> s | None \<Rightarrow> replicate (nrows res) dflt)"

section \<open>Mask expressions\<close>

text \<open>
  The rules are boolean expressions over series. They are kept as terms, one constructor
  per operator of the source, so that the columns a rule reads can be told from its text;
  \<open>eval\<close> gives them the meaning pandas does. \<open>Res c\<close> is \<^verbatim>\<open>res['c']\<close>, \<open>SGet c\<close> is
  \<^verbatim>\<open>sget('c')\<close> with its default \<^verbatim>\<open>False\<close>, \<open>AllFalse\<close> is
  \<^verbatim>\<open>pd.Series(False, index=res.index)\<close>.
\<close>

datatype sexpr = Res string | SGet string

datatype mexpr =
    Isin sexpr "string list"
  | EqS sexpr string
  | NeS sexpr string
  | EqN sexpr int
  | And mexpr mexpr
  | Or mexpr mexpr
  | AllFalse

fun fetch :: "frame \<Rightarrow> sexpr \<Rightarrow> error + series" where
  "fetch res (Res c) = getcol res c"
| "fetch res (SGet c) = Inr (sget res c (Bool False))"

fun eval :: "frame \<Rightarrow> mexpr \<Rightarrow> error + mask" where
  "eval res (Isin e vs) = (case fetch res e of Inl x \<Rightarrow> Inl x | Inr s \<Rightarrow> Inr (isin s vs))"
| "eval res (EqS e v) = (case fetch res e of Inl x \<Rightarrow> Inl x | Inr s \<Rightarrow> Inr (eq_str s v))"
| "eval res (NeS e v) = (case fetch res e of Inl x \<Rightarrow> Inl x | Inr s \<Rightarrow> Inr (ne_str s v))"
| "eval res (EqN e k) = (case fetch res e of Inl x \<Rightarrow> Inl x | Inr s \<Rightarrow> Inr (eq_num s k))"
| "eval res (And a b) =
     (case eval res a of Inl x \<Rightarrow> Inl x
      | Inr ma \<Rightarrow> (case eval res b of Inl x \<Rightarrow> Inl x | Inr mb \<Rightarrow> Inr (mand ma mb)))"
| "eval res (Or a b) =
     (case eval res a of Inl x \<Rightarrow> Inl x
      | Inr ma \<Rightarrow> (case eval res b of Inl x \<Rightarrow> Inl x | Inr mb \<Rightarrow> Inr (mor ma mb)))"
| "eval res AllFalse = Inr (replicate (nrows res) False)"

fun cols_of_sexpr :: "sexpr \<Rightarrow> string" where
  "cols_of_sexpr (Res c) = c"
| "cols_of_sexpr (SGet c) = c"

fun cols_of :: "mexpr \<Rightarrow> string list" where
  \<comment> \<open>the columns of the records table an expression names\<close>
  "cols_of (Isin e vs) = [cols_of_sexpr e]"
| "cols_of (EqS e v) = [cols_of_sexpr e]"
| "cols_of (NeS e v) = [cols_of_sexpr e]"
| "cols_of (EqN e k) = [cols_of_sexpr e]"
| "cols_of (And a b) = cols_of a @ cols_of b"
| "cols_of (Or a b) = cols_of a @ cols_of b"
| "cols_of AllFalse = []"

section \<open>Flag derivation\<close>

definition select :: "series \<Rightarrow> mask \<Rightarrow> series" where
  \<comment> \<open>\<^verbatim>\<open>res.loc[mask, 'StuID']\<close>: the cells of the rows where the mask is true\<close>
  "select s m = map fst (filter snd (zip s m))"

fun unique :: "series \<Rightarrow> series" where
  \<comment> \<open>\<^verbatim>\<open>.unique()\<close>: first occurrences, in order\<close>
  "unique [] = []"
| "unique (x # xs) = x # unique (filter (\<lambda>y. y \<noteq> x) xs)"

definition flags :: "series \<Rightarrow> series \<Rightarrow> series" where
  \<comment> \<open>\<^verbatim>\<open>df['Student ID'].isin(valid_students).astype(int)\<close>\<close>
  "flags sid valid = map (\<lambda>c. Num (if c \<in> set valid then 1 else 0)) sid"

definition set_flag :: "frame \<Rightarrow> frame \<Rightarrow> mask \<Rightarrow> string \<Rightarrow> error + frame" where
  "set_flag res df m colname =
     (case getcol res ''StuID'' of
        Inl x \<Rightarrow> Inl x
      | Inr stu \<Rightarrow>
          (let valid_students = unique (select stu m) in
           case getcol df ''Student ID'' of
             Inl x \<Rightarrow> Inl x
           | Inr sid \<Rightarrow> Inr (assign df colname (flags sid valid_students))))"

section \<open>The base masks\<close>

text \<open>
  The source computes these once, before the first rule; it reads \<^verbatim>\<open>res['CG']\<close> first and
  \<^verbatim>\<open>res['Y']\<close> second. None of them changes afterwards, so each name stands for its
  expression, and \<open>apply_prerequisites\<close> below reads the two required columns in that order
  before anything else.
\<close>

definition new5 :: mexpr where
  "new5 = Isin (Res ''CG'') [''N5'']"

definition new4 :: mexpr where
  "new4 = Isin (Res ''CG'') [''N4'', ''N5'']"

definition new3 :: mexpr where
  "new3 = Isin (Res ''CG'') [''N3'', ''N4'', ''N5'']"

definition new :: mexpr where
  "new = Isin (Res ''CG'') [''N2'', ''N3'', ''N4'', ''N5'']"

definition cgtop3 :: mexpr where
  "cgtop3 = Isin (Res ''CG'') [''B+'', ''A'', ''A+'']"

definition cgtop4 :: mexpr where
  "cgtop4 = Isin (Res ''CG'') [''B'', ''B+'', ''A'', ''A+'']"

definition y6 :: mexpr where
  "y6 = EqN (Res ''Y'') 6"

definition y7 :: mexpr where
  "y7 = EqN (Res ''Y'') 7"

definition y8 :: mexpr where
  "y8 = EqN (Res ''Y'') 8"

definition y9 :: mexpr where
  "y9 = EqN (Res ''Y'') 9"

definition y10 :: mexpr where
  "y10 = EqN (Res ''Y'') 10"

definition y11 :: mexpr where
  "y11 = EqN (Res ''Y'') 11"

definition y12 :: mexpr where
  "y12 = EqN (Res ''Y'') 12"

definition early_VCE :: mexpr where
  "early_VCE = And y9 (Or (Isin (Res ''CG'') [''D+'', ''C'', ''C+'', ''B'', ''B+'', ''A'',
      ''A+'']) new3)"

definition early_VCE_mid :: mexpr where
  "early_VCE_mid = And y9 (Or (Isin (Res ''CG'') [''B'', ''B+'', ''A'', ''A+'']) new5)"

definition early_VCE_high :: mexpr where
  "early_VCE_high = And y9 (Or (Isin (Res ''CG'') [''A'', ''A+'']) new5)"

definition art_high :: mexpr where
  "art_high = And (And y9 cgtop3) (Or (Or (Or (Or (Or (Isin (SGet ''ARDE'') [''A'', ''A+''])
      (Isin (SGet ''DRPA'') [''A'', ''A+''])) (Isin (SGet ''GRDE'') [''A'', ''A+''])) (Isin
      (SGet ''PHO'') [''A'', ''A+''])) (Isin (SGet ''SCME'') [''A'', ''A+''])) (Isin
      (SGet ''SCPR'') [''A'', ''A+'']))"

definition hum_high :: mexpr where
  "hum_high = And (And y9 cgtop3) (Or (Or (Or (Isin (SGet ''HIS1'') [''A'', ''A+'']) (Isin
      (SGet ''RV3'') [''A'', ''A+''])) (Isin (SGet ''GEO1'') [''A'', ''A+''])) (Isin
      (SGet ''EB'') [''A'', ''A+'']))"

definition mat_high :: mexpr where
  "mat_high = And (And y9 cgtop3) (Or (Isin (SGet ''AMAT1'') [''A+'']) new5)"

definition sci_high :: mexpr where
  "sci_high = And (And y9 cgtop3) (Or (Isin (SGet ''RSC1'') [''A'', ''A+'']) new5)"

definition pe_high :: mexpr where
  "pe_high = And (And y9 cgtop3) (Or (Or (Isin (SGet ''HPE3'') [''A'', ''A+'']) (Isin
      (SGet ''DE'') [''A'', ''A+''])) (Isin (SGet ''RFIT'') [''A'', ''A+'']))"

definition mat_high10 :: mexpr where
  "mat_high10 = And y10 (Or (And (Isin (SGet ''IMAT2'') [''A'', ''A+'']) (EqS
      (SGet ''IMAT3'') ''S2'')) (Isin (SGet ''AMAT2'') [''B+'', ''A'', ''A+'']))"

definition mat_mid10 :: mexpr where
  "mat_mid10 = And y10 (Or (And (Isin (SGet ''IMAT2'') [''B+'', ''A'', ''A+'']) (EqS
      (SGet ''IMAT3'') ''S2'')) (Isin (SGet ''AMAT2'') [''B'', ''B+'', ''A'', ''A+'']))"

definition sci_mid10 :: mexpr where
  "sci_mid10 = And y10 (Or (Isin (SGet ''SCI4'') [''B'', ''B+'', ''A'', ''A+'']) (Isin
      (SGet ''RSC1'') [''B'', ''B+'', ''A'', ''A+'']))"

definition sci_minmid10 :: mexpr where
  "sci_minmid10 = And y10 (Or (Isin (SGet ''SCI4'') [''C+'', ''B'', ''B+'', ''A'', ''A+''])
      (Isin (SGet ''RSC1'') [''C+'', ''B'', ''B+'', ''A'', ''A+'']))"

definition sci_min10 :: mexpr where
  "sci_min10 = And y10 (Or (Isin (SGet ''SCI4'') [''C'', ''C+'', ''B'', ''B+'', ''A'',
      ''A+'']) (Isin (SGet ''RSC1'') [''C'', ''C+'', ''B'', ''B+'', ''A'', ''A+'']))"

section \<open>The rule catalogue\<close>

text \<open>
  Every \<^verbatim>\<open>set_flag(mask, colname)\<close> call of the source, in its order, as the pair of its
  two arguments; a \<^verbatim>\<open>for subj in [...]\<close> loop is the \<open>map\<close> over its list.
\<close>

definition calls_year7 :: "(mexpr \<times> string) list" where
  \<comment> \<open>Year 7\<close>
  "calls_year7 =
    map (\<lambda>subj. (y6, subj))
      [''Design and Technologies'', ''Digital Technologies'', ''Drama 1'', ''English 1'',
         ''Health and Physical Education 1'', ''Humanities 1'', ''Mathematics 1'', ''Music 1'',
         ''Religion and Values 1'', ''Science 1'', ''Visual Arts 1''] @
    [(And y6 (Or (Isin (SGet ''ARA'') [''C5'', ''C4'', ''C3'', ''C2'', ''C1'', ''B2'', ''B1'',
         ''A'']) new), ''Arabic 1''),
     (And (Or (Or y6 y7) y8) new, ''Turkish 1''),
     (Or (Or (And y6 (NeS (SGet ''TUR'') '''')) (And y7 (NeS (SGet ''TUR1'') ''''))) (And y6
         (Isin (SGet ''BTUR'') [''A'', ''B1'', ''B2''])), ''Turkish 2''),
     (And y6 (NeS (SGet ''ATUR'') ''''), ''Turkish 5'')]"

definition calls_year8 :: "(mexpr \<times> string) list" where
  \<comment> \<open>Year 8\<close>
  "calls_year8 =
    map (\<lambda>subj. (y7, subj))
      [''Drama 2'', ''English 2'', ''Food Technology'', ''Health and Physical Education 2'',
         ''Humanities 2'', ''Mathematics 2'', ''Media'', ''Music 2'', ''Programming'',
         ''Religion and Values 2'', ''Robotics 1'', ''Science 2'', ''Textiles'',
         ''Visual Arts 2''] @
    [(Or (NeS (SGet ''ARA1'') '''') (And y7 new), ''Arabic 2''),
     (And (NeS (SGet ''TUR2'') '''') (Or y7 y8), ''Turkish 3''),
     (And (NeS (SGet ''TUR5'') '''') y7, ''Turkish 6'')]"

definition calls_year9a :: "(mexpr \<times> string) list" where
  \<comment> \<open>Year 9, up to Sculpture and Printmaking\<close>
  "calls_year9a =
    map (\<lambda>subj. (y8, subj))
      [''English 3'', ''Health and Physical Education 3'', ''History 1'',
         ''Intermediate Mathematics 1'', ''Religion and Values 3'', ''Science 3''] @
    [(And y8 (Or (Isin (SGet ''MAT2'') [''A'', ''A+'']) new5), ''Advanced Mathematics 1''),
     (Or (NeS (SGet ''ARA2'') '''') (And y8 new), ''Arabic 3''),
     (And (EqS (SGet ''ARDE'') '''') (Or y8 y9), ''Architecture and Design''),
     (Or y8 y9, ''Behavioural Science''),
     (And (EqS (SGet ''CC'') '''') (Or y8 y9), ''Civics and Citizenship''),
     (Or y8 y9, ''Debating and Public Speaking''),
     (Or y8 y9, ''Drama 3''),
     (And (EqS (SGet ''DRPA'') '''') (Or y8 y9), ''Drawing and Painting''),
     (Or y8 y9, ''Duke of Edinburgh''),
     (And (EqS (SGet ''EB'') '''') (Or y8 y9), ''Economics and Business''),
     (And (EqS (SGet ''FATT'') '''') (Or y8 y9), ''Fashion and Textile Trends''),
     (And (EqS (SGet ''FI'') '''') (Or y8 y9), ''Food and the Food Industry''),
     (And (EqS (SGet ''GEO1'') '''') (Or y8 y9), ''Geography 1''),
     (And (EqS (SGet ''GRDE'') '''') (Or y8 y9), ''Graphic Design''),
     (And (EqS (SGet ''INN'') '''') (Or y8 y9), ''Innovation''),
     (Or y8 y9, ''Introduction to Artificial Intelligence''),
     (Or y8 y9, ''Music 3''),
     (And (EqS (SGet ''PHO'') '''') (Or y8 y9), ''Photography''),
     (And (And (EqS (SGet ''RFIT'') '''') (Or y8 y9)) (Or (Or (Isin (SGet ''HPE2'') [''C'',
         ''C+'', ''B'', ''B+'', ''A'', ''A+'']) (Isin (SGet ''HPE3'') [''C'', ''C+'', ''B'',
         ''B+'', ''A'', ''A+''])) new5), ''Recreational Fitness''),
     (And (EqS (SGet ''RMAT'') '''') (Or y8 y9), ''Recreational Mathematics''),
     (Or (And y8 (Or (Isin (SGet ''SCI2'') [''B+'', ''A'', ''A+'']) new4)) (And y9 (Or (Isin
         (SGet ''SCI3'') [''C+'', ''B'', ''B+'', ''A'', ''A+'']) new4)),
         ''Research Science 1''),
     (And y8 (Or (Isin (SGet ''SCI2'') [''B+'', ''A'', ''A+'']) new4), ''Research Science 2''),
     (And (EqS (SGet ''ROB2'') '''') (Or y8 y9), ''Robotics 2''),
     (And (EqS (SGet ''SCME'') '''') (Or y8 y9), ''Screen and Media''),
     (And (EqS (SGet ''SCPR'') '''') (Or y8 y9), ''Sculpture and Printmaking'')]"

definition calls_year9b :: "(mexpr \<times> string) list" where
  \<comment> \<open>Year 9, from Stagecraft and Production on\<close>
  "calls_year9b =
    [(Or y8 y9, ''Stagecraft and Production''),
     (Or y8 y9, ''Technology Start-Ups''),
     (And (NeS (SGet ''TUR6'') '''') y8, ''Turkish 7''),
     (And (EqS (SGet ''VS'') '''') (Or y8 y9), ''Volunteering Skills''),
     (And (EqS (SGet ''WDCS'') '''') (Or y8 y9), ''Web Design and Cyber Security'')]"

definition calls_year10 :: "(mexpr \<times> string) list" where
  \<comment> \<open>Year 10\<close>
  "calls_year10 =
    map (\<lambda>subj. (y9, subj))
      [''Certificate II in Workplace Skills'', ''English 4'',
         ''Health and Physical Education 4'', ''History 2'', ''Intermediate Mathematics 2'',
         ''Intermediate Mathematics 3'', ''Religion Studies'', ''Science 4''] @
    [(And y9 (Or (And (Isin (SGet ''ENG3'') [''B'', ''B+'', ''A'', ''A+'']) cgtop4) new4),
         ''Advanced English''),
     (And y9 (Or (Or (Isin (SGet ''AMAT1'') [''C'', ''C+'', ''B'', ''B+'', ''A'', ''A+''])
         (Isin (SGet ''IMAT1'') [''A'', ''A+''])) new5), ''Advanced Mathematics 2''),
     (And y9 (Or (Or (Isin (SGet ''AMAT1'') [''C'', ''C+'', ''B'', ''B+'', ''A'', ''A+''])
         (Isin (SGet ''IMAT1'') [''A'', ''A+''])) new5), ''Extended Mathematics'')]"

definition calls_u12 :: "(mexpr \<times> string) list" where
  \<comment> \<open>Unit 1-2\<close>
  "calls_u12 =
    map (\<lambda>subj. (y10, subj))
      [''Drama U12'', ''English Language U12'', ''English U12'', ''General Mathematics U12'',
         ''Literature U12'', ''VCE VET Business U12'', ''VCE VET Sport and Recreation U12''] @
    [(Or (Or y10 early_VCE_high) art_high, ''Art Creative Practice U12''),
     (Or (Or y10 early_VCE_high) art_high, ''Theatre Studies U12''),
     (Or (Or y10 early_VCE_high) art_high, ''Visual Communication Design U12''),
     (Or (Or y10 early_VCE_high) hum_high, ''Economics U12''),
     (Or (Or y10 early_VCE_high) hum_high, ''History U12''),
     (Or (Or y10 early_VCE_high) hum_high, ''Legal Studies U12''),
     (Or (Or y10 early_VCE_high) hum_high, ''Texts and Traditions U12''),
     (Or (Or y10 early_VCE_high) hum_high, ''Politics U12''),
     (Or (Or y10 early_VCE_high) hum_high, ''Sociology U12''),
     (Or (Or (And y10 (Or sci_mid10 new4)) (And early_VCE_high sci_high)) (And new5
         (Or y9 y10)), ''Chemistry U12''),
     (Or (Or (And y10 (Or sci_minmid10 new4)) (And early_VCE_high sci_high)) (And new5
         (Or y9 y10)), ''Physics U12''),
     (And (EqS (SGet ''ACOMU12'') '''') (Or y10 early_VCE), ''Applied Computing U12''),
     (Or (Or (Or (And (And y9 cgtop4) (Or (Isin (SGet ''SCI3'') [''B+'', ''A'', ''A+'']) (NeS
         (SGet ''RSC1'') ''''))) (And y9 new4)) (And y10 new4)) (And (And y10 sci_min10) (EqS
         (SGet ''BIOU12'') '''')), ''Biology U12''),
     (And (EqS (SGet ''BMU12'') '''') (Or y10 early_VCE), ''Business Management U12''),
     (And (EqS (SGet ''HHDU12'') '''') (Or y10 early_VCE),
         ''Health and Human Development U12''),
     (Or (Or (And y10 (Or mat_mid10 new4)) (And early_VCE_high mat_high)) (And new5
         (Or y9 y10)), ''Mathematical Methods U12''),
     (Or (Or y10 early_VCE_high) pe_high, ''Outdoor and Environmental Studies U12''),
     (Or (Or y10 early_VCE_high) pe_high, ''Physical Education U12''),
     (Or y10 early_VCE_mid, ''Product Design and Technologies U12''),
     (Or (Or (Or (And (And y9 cgtop4) (Or (Isin (SGet ''SCI3'') [''B'', ''B+'', ''A'',
         ''A+'']) (NeS (SGet ''RSC1'') ''''))) (And y9 new4)) (And y10 new4)) (And
         (And y10 sci_min10) (EqS (SGet ''PSYU12'') '''')), ''Psychology U12''),
     (Or (And y10 (Or mat_high10 new4)) (And new5 y10), ''Specialist Mathematics U12''),
     (And (Or y9 y10) (NeS (SGet ''TUR7'') ''''), ''Turkish U12'')]"

definition calls_u34a :: "(mexpr \<times> string) list" where
  \<comment> \<open>Unit 3-4, up to Economics U34\<close>
  "calls_u34a =
    [(NeS (SGet ''ACPU12'') '''', ''Art Creative Practice U34''),
     (NeS (SGet ''BIOU12'') '''', ''Biology U34''),
     (NeS (SGet ''BMU12'') '''', ''Business Management U34''),
     (NeS (SGet ''CHEU12'') '''', ''Chemistry U34''),
     (NeS (SGet ''ACOMU12'') '''', ''Data Analytics U34''),
     (NeS (SGet ''ACOMU12'') '''', ''Software Development U34''),
     (NeS (SGet ''DRAU12'') '''', ''Drama U34''),
     (NeS (SGet ''ECOU12'') '''', ''Economics U34'')]"

definition calls_u34b :: "(mexpr \<times> string) list" where
  \<comment> \<open>Unit 3-4, from General Mathematics U34 on\<close>
  "calls_u34b =
    [(Or (Or (Or (NeS (SGet ''GMATU12'') '''') (NeS (SGet ''MATMU12'') '''')) mat_high10)
         (And y10 new4), ''General Mathematics U34''),
     (NeS (SGet ''HHDU12'') '''', ''Health and Human Development U34''),
     (NeS (SGet ''HISU12'') '''', ''History U34''),
     (NeS (SGet ''LEGU12'') '''', ''Legal Studies U34''),
     (NeS (SGet ''MATMU12'') '''', ''Mathematical Methods U34''),
     (NeS (SGet ''PEU12'') '''', ''Physical Education U34''),
     (NeS (SGet ''PHYU12'') '''', ''Physics U34''),
     (NeS (SGet ''PSYU12'') '''', ''Psychology U34''),
     (Or (Or (NeS (SGet ''SMATU12'') '''') (And y11 (Isin (SGet ''MATMU12'') [''B+'', ''A'',
         ''A+'']))) (And y11 new5), ''Specialist Mathematics U34''),
     (NeS (SGet ''TURU12'') '''', ''Turkish U34''),
     (NeS (SGet ''VBUSU12'') '''', ''VCE VET Business U34''),
     (NeS (SGet ''VSRU12'') '''', ''VCE VET Sport and Recreation U34''),
     (NeS (SGet ''VCDU12'') '''', ''Visual Communication Design U34'')]"

definition svf_rule :: mexpr where
  \<comment> \<open>the mask of the call in the branch \<^verbatim>\<open>if 'SVF' in res\<close>\<close>
  "svf_rule = And (EqS (SGet ''SVF'') '''') (Or y8 y9)"

definition mask_any_u12_english :: "frame \<Rightarrow> mexpr" where
  \<comment> \<open>starts all false; each of the three columns that is in the table contributes
      \<^verbatim>\<open>res[col] != ''\<close>\<close>
  "mask_any_u12_english res =
     foldl (\<lambda>m col. if has_col res col then Or m (NeS (Res col) '''') else m)
       AllFalse [''ENGU12'', ''ELANU12'', ''LITU12'']"

definition calls_english :: "frame \<Rightarrow> (mexpr \<times> string) list" where
  "calls_english res =
    [(mask_any_u12_english res, ''English U34''),
     (mask_any_u12_english res, ''English Language U34''),
     (mask_any_u12_english res, ''Literature U34'')]"

definition calls_before_svf :: "(mexpr \<times> string) list" where
  "calls_before_svf = calls_year7 @ calls_year8 @ calls_year9a"

definition calls_after_svf :: "frame \<Rightarrow> (mexpr \<times> string) list" where
  "calls_after_svf res =
     calls_year9b @ calls_year10 @ calls_u12 @ calls_u34a @ calls_english res @ calls_u34b"

definition catalog :: "frame \<Rightarrow> (mexpr \<times> string) list" where
  \<comment> \<open>each subject with the predicate the source writes for it\<close>
  "catalog res = calls_before_svf @ [(svf_rule, ''Social Values in Film'')] @ calls_after_svf res"

section \<open>The program\<close>

datatype stmt = SetFlag mexpr string | Assign0 string

fun stmt_name :: "stmt \<Rightarrow> string" where
  "stmt_name (SetFlag m c) = c"
| "stmt_name (Assign0 c) = c"

definition call :: "mexpr \<times> string \<Rightarrow> stmt" where
  "call p = SetFlag (fst p) (snd p)"

definition svf_stmt :: "frame \<Rightarrow> stmt" where
  \<comment> \<open>the one place where the source branches on a column being in the table\<close>
  "svf_stmt res =
     (if has_col res ''SVF'' then SetFlag svf_rule ''Social Values in Film''
      else Assign0 ''Social Values in Film'')"

definition program :: "frame \<Rightarrow> stmt list" where
  "program res = map call calls_before_svf @ [svf_stmt res] @ map call (calls_after_svf res)"

fun exec :: "frame \<Rightarrow> frame \<Rightarrow> stmt \<Rightarrow> error + frame" where
  "exec res df (SetFlag e c) =
     (case eval res e of Inl x \<Rightarrow> Inl x | Inr m \<Rightarrow> set_flag res df m c)"
| "exec res df (Assign0 c) = Inr (assign df c (replicate (nrows df) (Num 0)))"

text \<open>
  The roster is mutated in place. A run either returns the final roster (\<open>Inr\<close>), or
  raises (\<open>Inl\<close>) and leaves the roster as the statements before the failing one made it.
\<close>

fun exec_all :: "frame \<Rightarrow> stmt list \<Rightarrow> frame \<Rightarrow> error \<times> frame + frame" where
  "exec_all res [] df = Inr df"
| "exec_all res (s # ss) df =
     (case exec res df s of Inl x \<Rightarrow> Inl (x, df) | Inr df' \<Rightarrow> exec_all res ss df')"

definition apply_prerequisites :: "frame \<Rightarrow> frame \<Rightarrow> error \<times> frame + frame" where
  "apply_prerequisites res df =
     (case getcol res ''CG'' of
        Inl x \<Rightarrow> Inl (x, df)
      | Inr cg \<Rightarrow>
          (case getcol res ''Y'' of
             Inl x \<Rightarrow> Inl (x, df)
           | Inr y \<Rightarrow> exec_all res (program res) df))"

section \<open>Auxiliary definitions\<close>

text \<open>
  Notions the proofs use: the columns an expression reads directly, the mask of an
  expression, what a statement writes, the row-wise reading of an expression, and the
  example tables.
\<close>

fun res_cols_sexpr :: "sexpr \<Rightarrow> string list" where
  "res_cols_sexpr (Res c) = [c]"
| "res_cols_sexpr (SGet c) = []"

fun res_cols :: "mexpr \<Rightarrow> string list" where
  "res_cols (Isin e vs) = res_cols_sexpr e"
| "res_cols (EqS e v) = res_cols_sexpr e"
| "res_cols (NeS e v) = res_cols_sexpr e"
| "res_cols (EqN e k) = res_cols_sexpr e"
| "res_cols (And a b) = res_cols a @ res_cols b"
| "res_cols (Or a b) = res_cols a @ res_cols b"
| "res_cols AllFalse = []"

definition the_mask :: "frame \<Rightarrow> mexpr \<Rightarrow> mask" where
  "the_mask res e = (case eval res e of Inr m \<Rightarrow> m | Inl x \<Rightarrow> [])"

fun written :: "frame \<Rightarrow> series \<Rightarrow> series \<Rightarrow> nat \<Rightarrow> stmt \<Rightarrow> series" where
  "written res stu sid n (SetFlag e c) = flags sid (unique (select stu (the_mask res e)))"
| "written res stu sid n (Assign0 c) = replicate n (Num 0)"

definition run :: "(stmt \<Rightarrow> series) \<Rightarrow> frame \<Rightarrow> stmt list \<Rightarrow> frame" where
  "run w df ss = foldl (\<lambda>d s. assign d (stmt_name s) (w s)) df ss"

definition needs_only :: "frame \<Rightarrow> mexpr \<Rightarrow> bool" where
  "needs_only res e = list_all (has_col res) (res_cols e)"

definition stmt_for :: "frame \<Rightarrow> mexpr \<times> string \<Rightarrow> stmt" where
  "stmt_for res p =
     (if snd p = ''Social Values in Film'' \<and> \<not> has_col res ''SVF'' then Assign0 (snd p)
      else SetFlag (fst p) (snd p))"

fun cell_at :: "frame \<Rightarrow> nat \<Rightarrow> sexpr \<Rightarrow> cell" where
  "cell_at res i (Res c) = (case map_of (columns res) c of Some s \<Rightarrow> s ! i | None \<Rightarrow> NaN)"
| "cell_at res i (SGet c) = (case map_of (columns res) c of Some s \<Rightarrow> s ! i | None \<Rightarrow> Bool False)"

fun holds :: "frame \<Rightarrow> nat \<Rightarrow> mexpr \<Rightarrow> bool" where
  "holds res i (Isin e vs) = (case cell_at res i e of Str x \<Rightarrow> x \<in> set vs | _ \<Rightarrow> False)"
| "holds res i (EqS e v) = (cell_at res i e = Str v)"
| "holds res i (NeS e v) = (cell_at res i e \<noteq> Str v)"
| "holds res i (EqN e k) = (cell_at res i e = Num k)"
| "holds res i (And a b) = (holds res i a \<and> holds res i b)"
| "holds res i (Or a b) = (holds res i a \<or> holds res i b)"
| "holds res i AllFalse = False"

definition recs_s2 :: frame where
  "recs_s2 = \<lparr>nrows = 1, columns = [(''StuID'', [Str ''S2'']), (''Y'', [Num 9]), (''CG'', [Str ''N5''])]\<rparr>"

definition roster_s2 :: frame where
  "roster_s2 = \<lparr>nrows = 1, columns = [(''Student ID'', [Str ''S2''])]\<rparr>"

definition required_missing :: "frame \<Rightarrow> frame \<Rightarrow> string" where
  "required_missing res df =
     (if \<not> has_col res ''CG'' then ''CG''
      else if \<not> has_col res ''Y'' then ''Y''
      else if \<not> has_col res ''StuID'' then ''StuID''
      else ''Student ID'')"

definition res_no_cg :: frame where
  "res_no_cg = \<lparr>nrows = 1, columns = [(''StuID'', [Str ''S1'']), (''Y'', [Num 6])]\<rparr>"

definition res_no_stuid :: frame where
  "res_no_stuid = \<lparr>nrows = 1, columns = [(''Y'', [Num 6]), (''CG'', [Str ''B''])]\<rparr>"

definition df_no_sid :: frame where
  "df_no_sid = \<lparr>nrows = 1, columns = [(''Name'', [Str ''Ann''])]\<rparr>"

definition roster_booked :: frame where
  "roster_booked = \<lparr>nrows = 1, columns = [(''Student ID'', [Str ''S2'']), (''English 1'', [Str ''x''])]\<rparr>"

definition recs_s1 :: frame where
  "recs_s1 = \<lparr>nrows = 1, columns = [(''StuID'', [Str ''S1'']), (''Y'', [Num 6]), (''CG'', [Str ''B''])]\<rparr>"

definition roster_s1 :: frame where
  "roster_s1 = \<lparr>nrows = 1, columns = [(''Student ID'', [Str ''S1''])]\<rparr>"

definition roster_two :: frame where
  "roster_two = \<lparr>nrows = 2, columns = [(''Student ID'', [Str ''S2'', Str ''S9''])]\<rparr>"

definition recs_two :: frame where
  "recs_two = \<lparr>nrows = 2, columns =
     [(''StuID'', [Str ''S1'', Str ''S2'']), (''Y'', [Num 11, Num 8]), (''CG'', [Str ''B'', Str ''A'']),
      (''LITU12'', [Str ''B+'', Str '''']), (''SVF'', [Str ''A'', Str ''''])]\<rparr>"

definition roster_swapped :: frame where
  "roster_swapped = \<lparr>nrows = 2, columns = [(''Student ID'', [Str ''S2'', Str ''S1''])]\<rparr>"

definition drop_col :: "string \<Rightarrow> frame \<Rightarrow> frame" where
  \<comment> \<open>the table without the column \<open>c\<close>\<close>
  "drop_col c f = f\<lparr>columns := filter (\<lambda>p. fst p \<noteq> c) (columns f)\<rparr>"

definition recs_arde :: frame where
  "recs_arde = \<lparr>nrows = 1, columns =
     [(''StuID'', [Str ''S1'']), (''Y'', [Num 8]), (''CG'', [Str ''B'']), (''ARDE'', [Str ''''])]\<rparr>"

section \<open>Properties\<close>

lemmas base_defs = new5_def new4_def new3_def new_def cgtop3_def cgtop4_def
  y6_def y7_def y8_def y9_def y10_def y11_def y12_def
  early_VCE_def early_VCE_mid_def early_VCE_high_def art_high_def hum_high_def
  mat_high_def sci_high_def pe_high_def mat_high10_def mat_mid10_def sci_mid10_def
  sci_minmid10_def sci_min10_def

lemmas calls_defs = calls_year7_def calls_year8_def calls_year9a_def calls_year9b_def
  calls_year10_def calls_u12_def calls_u34a_def calls_u34b_def

lemma map_of_upd_col: "map_of (upd_col c v ps) = (map_of ps)(c \<mapsto> v)"
  by (induction ps) (auto simp: fun_eq_iff)

lemma names_upd_col:
  "map fst (upd_col c v ps) = (if c \<in> set (map fst ps) then map fst ps else map fst ps @ [c])"
  by (induction ps) force+

lemma nrows_assign [simp]: "nrows (assign f c v) = nrows f"
  by (simp add: assign_def)

lemma map_of_assign: "map_of (columns (assign f c v)) = (map_of (columns f))(c \<mapsto> v)"
  by (simp add: assign_def map_of_upd_col)

lemma getcol_assign_other: "k \<noteq> c \<Longrightarrow> getcol (assign f c v) k = getcol f k"
  by (simp add: getcol_def map_of_assign)

lemma nrows_run [simp]: "nrows (run w df ss) = nrows df"
  unfolding run_def by (induction ss arbitrary: df) auto

lemma find_snoc:
  "find P (xs @ [x]) = (case find P xs of None \<Rightarrow> (if P x then Some x else None) | Some y \<Rightarrow> Some y)"
  by (induction xs) auto

lemma map_of_run:
  "map_of (columns (run w df ss)) c =
     (case find (\<lambda>s. stmt_name s = c) (rev ss) of
        None \<Rightarrow> map_of (columns df) c
      | Some s \<Rightarrow> Some (w s))"
  unfolding run_def
proof (induction ss arbitrary: df)
  case Nil
  show ?case by simp
next
  case (Cons s ss)
  show ?case
    by (simp add: Cons.IH find_snoc map_of_assign split: option.splits)
qed

lemma names_run:
  assumes "distinct (map stmt_name ss)"
  shows "map fst (columns (run w df ss)) =
         map fst (columns df) @ filter (\<lambda>n. n \<notin> set (map fst (columns df))) (map stmt_name ss)"
  using assms unfolding run_def
proof (induction ss arbitrary: df)
  case Nil
  show ?case by simp
next
  case (Cons s ss)
  let ?d = "assign df (stmt_name s) (w s)"
  have d: "distinct (map stmt_name ss)" and nin: "stmt_name s \<notin> set (map stmt_name ss)"
    using Cons.prems by auto
  have n: "map fst (columns ?d) =
      (if stmt_name s \<in> set (map fst (columns df)) then map fst (columns df)
       else map fst (columns df) @ [stmt_name s])"
    by (simp add: assign_def names_upd_col)
  have f: "filter (\<lambda>n. n \<noteq> stmt_name s \<and> n \<notin> set (map fst (columns df))) (map stmt_name ss)
         = filter (\<lambda>n. n \<notin> set (map fst (columns df))) (map stmt_name ss)"
    using nin by (intro filter_cong refl) blast
  show ?case
    using Cons.IH [OF d, of ?d] n f by (auto simp: conj_commute)
qed

lemma exec_ok:
  assumes "getcol res ''StuID'' = Inr stu" and "getcol df ''Student ID'' = Inr sid"
    and "\<And>e c. s = SetFlag e c \<Longrightarrow> \<exists>m. eval res e = Inr m"
  shows "exec res df s = Inr (assign df (stmt_name s) (written res stu sid (nrows df) s))"
proof (cases s)
  case (SetFlag e c)
  then obtain m where "eval res e = Inr m" using assms(3) by blast
  then show ?thesis
    using SetFlag assms(1,2) by (simp add: set_flag_def the_mask_def)
next
  case (Assign0 c)
  then show ?thesis by simp
qed

lemma exec_all_ok:
  assumes "getcol res ''StuID'' = Inr stu" and "getcol df ''Student ID'' = Inr sid"
    and "''Student ID'' \<notin> set (map stmt_name ss)"
    and "\<And>e c. SetFlag e c \<in> set ss \<Longrightarrow> \<exists>m. eval res e = Inr m"
  shows "exec_all res ss df = Inr (run (written res stu sid (nrows df)) df ss)"
  using assms(2-)
proof (induction ss arbitrary: df)
  case Nil
  show ?case by (simp add: run_def)
next
  case (Cons s ss)
  let ?d = "assign df (stmt_name s) (written res stu sid (nrows df) s)"
  have e: "exec res df s = Inr ?d"
    using Cons.prems(3) by (intro exec_ok [OF assms(1) Cons.prems(1)]) auto
  have g: "getcol ?d ''Student ID'' = Inr sid"
    using Cons.prems(1,2) by (simp add: getcol_assign_other)
  have "exec_all res ss ?d = Inr (run (written res stu sid (nrows ?d)) ?d ss)"
    using Cons.prems(2,3) by (intro Cons.IH [OF g]) auto
  then show ?case
    using e by (simp add: run_def)
qed

lemma eval_total: "(\<And>c. c \<in> set (res_cols e) \<Longrightarrow> has_col res c) \<Longrightarrow> \<exists>m. eval res e = Inr m"
proof (induction e)
  case (Isin x vs)
  then show ?case by (cases x) (auto simp: has_col_def getcol_def)
next
  case (EqS x v)
  then show ?case by (cases x) (auto simp: has_col_def getcol_def)
next
  case (NeS x v)
  then show ?case by (cases x) (auto simp: has_col_def getcol_def)
next
  case (EqN x k)
  then show ?case by (cases x) (auto simp: has_col_def getcol_def)
next
  case (And a b)
  then show ?case by fastforce
next
  case (Or a b)
  then show ?case by fastforce
next
  case AllFalse
  show ?case by simp
qed

lemma needs_only_english: "needs_only res (mask_any_u12_english res)"
  by (simp add: needs_only_def mask_any_u12_english_def)

lemma needs_only_catalog:
  assumes "has_col res ''CG''" and "has_col res ''Y''"
  shows "list_all (\<lambda>p. needs_only res (fst p)) (catalog res)"
  using needs_only_english [of res] assms
  by (simp add: catalog_def calls_before_svf_def calls_after_svf_def calls_english_def svf_rule_def
      calls_defs needs_only_def base_defs)

lemma stmt_name_stmt_for [simp]: "stmt_name (stmt_for res p) = snd p"
  by (simp add: stmt_for_def)

lemma program_map: "program res = map (stmt_for res) (catalog res)"
  by (simp add: program_def catalog_def calls_before_svf_def calls_after_svf_def calls_english_def
      calls_defs svf_stmt_def call_def stmt_for_def)

lemma names_catalog:
  "map snd (catalog res) = map snd (catalog \<lparr>nrows = 0, columns = []\<rparr>)"
  by (simp add: catalog_def calls_before_svf_def calls_after_svf_def calls_english_def)

lemma distinct_catalog0: "distinct (map snd (catalog \<lparr>nrows = 0, columns = []\<rparr>))"
  by (simp add: catalog_def calls_before_svf_def calls_after_svf_def calls_english_def calls_defs)

lemma distinct_catalog: "distinct (map snd (catalog res))"
  using distinct_catalog0 names_catalog [of res] by simp

lemma sid_not_subject: "''Student ID'' \<notin> set (map snd (catalog res))"
  by (simp add: catalog_def calls_before_svf_def calls_after_svf_def calls_english_def calls_defs)

lemma wf_col_length: "wf_frame f \<Longrightarrow> map_of (columns f) c = Some s \<Longrightarrow> length s = nrows f"
  by (auto simp: wf_frame_def list_all_iff dest!: map_of_SomeD)

lemma getcol_length: "wf_frame f \<Longrightarrow> getcol f c = Inr s \<Longrightarrow> length s = nrows f"
  by (auto simp: getcol_def wf_col_length split: option.splits)

lemma fetch_length: "wf_frame res \<Longrightarrow> fetch res e = Inr s \<Longrightarrow> length s = nrows res"
  by (cases e) (auto simp: getcol_length sget_def wf_col_length split: option.splits)

lemma fetch_nth:
  "fetch res e = Inr s \<Longrightarrow> i < nrows res \<Longrightarrow> s ! i = cell_at res i e"
  by (cases e) (auto simp: getcol_def sget_def split: option.splits)

lemma eval_length: "wf_frame res \<Longrightarrow> eval res e = Inr m \<Longrightarrow> length m = nrows res"
proof (induction e arbitrary: m)
  case (And a b)
  then show ?case by (auto simp: mand_def split: sum.splits)
next
  case (Or a b)
  then show ?case by (auto simp: mor_def split: sum.splits)
qed (auto simp: isin_def eq_str_def ne_str_def eq_num_def fetch_length split: sum.splits)

lemma eval_nth:
  "wf_frame res \<Longrightarrow> eval res e = Inr m \<Longrightarrow> i < nrows res \<Longrightarrow> m ! i = holds res i e"
proof (induction e arbitrary: m)
  case (Isin x vs)
  then show ?case
    by (auto simp: isin_def fetch_length fetch_nth split: sum.splits)
next
  case (EqS x v)
  then show ?case
    by (auto simp: eq_str_def fetch_length fetch_nth split: sum.splits)
next
  case (NeS x v)
  then show ?case
    by (auto simp: ne_str_def fetch_length fetch_nth split: sum.splits)
next
  case (EqN x k)
  then show ?case
    by (auto simp: eq_num_def fetch_length fetch_nth split: sum.splits)
next
  case (And a b)
  then show ?case
    by (auto simp: mand_def eval_length split: sum.splits)
next
  case (Or a b)
  then show ?case
    by (auto simp: mor_def eval_length split: sum.splits)
next
  case AllFalse
  then show ?case by auto
qed

lemma set_unique: "set (unique xs) = set xs"
  by (induction xs rule: unique.induct) auto

lemma set_select: "set (select s m) = {s ! i | i. i < length s \<and> i < length m \<and> m ! i}"
  unfolding select_def
  by (auto simp: set_zip in_set_conv_nth) force

lemma flags_nth:
  "j < length sid \<Longrightarrow>
   flags sid (unique (select stu m)) ! j =
     Num (if \<exists>i. i < length stu \<and> i < length m \<and> m ! i \<and> stu ! i = sid ! j then 1 else 0)"
  by (auto simp: flags_def set_unique set_select)

lemma length_flags [simp]: "length (flags sid v) = length sid"
  by (simp add: flags_def)

lemma eval_catalog:
  assumes "has_col res ''CG''" and "has_col res ''Y''" and "p \<in> set (catalog res)"
  shows "\<exists>m. eval res (fst p) = Inr m"
proof -
  have "list_all (\<lambda>q. needs_only res (fst q)) (catalog res)"
    using assms(1,2) by (rule needs_only_catalog)
  then have "needs_only res (fst p)"
    using assms(3) unfolding list_all_iff by blast
  then have "\<And>c. c \<in> set (res_cols (fst p)) \<Longrightarrow> has_col res c"
    unfolding needs_only_def list_all_iff by blast
  then show ?thesis by (rule eval_total)
qed

lemma apply_ok:
  assumes "has_col res ''CG''" and "has_col res ''Y''"
    and "getcol res ''StuID'' = Inr stu" and "getcol df ''Student ID'' = Inr sid"
  shows "apply_prerequisites res df = Inr (run (written res stu sid (nrows df)) df (program res))"
proof -
  have n: "''Student ID'' \<notin> set (map stmt_name (program res))"
    using sid_not_subject [of res] by (simp add: program_map comp_def)
  have e: "\<exists>m. eval res e = Inr m" if "SetFlag e c \<in> set (program res)" for e c
  proof -
    from that obtain p where p: "p \<in> set (catalog res)" and s: "SetFlag e c = stmt_for res p"
      by (auto simp: program_map)
    from s have "e = fst p" by (auto simp: stmt_for_def split: if_splits)
    with eval_catalog [OF assms(1,2) p] show ?thesis by blast
  qed
  have "exec_all res (program res) df = Inr (run (written res stu sid (nrows df)) df (program res))"
    using assms(3,4) n e by (rule exec_all_ok)
  then show ?thesis
    using assms(1,2) by (auto simp: apply_prerequisites_def has_col_def getcol_def split: option.splits)
qed

lemma find_rev_map:
  assumes "distinct (map snd ps)" and "p \<in> set ps" and "\<And>q. stmt_name (g q) = snd q"
  shows "find (\<lambda>s. stmt_name s = snd p) (rev (map g ps)) = Some (g p)"
  using assms(1,2)
proof (induction ps)
  case Nil
  then show ?case by simp
next
  case (Cons q qs)
  show ?case
  proof (cases "p \<in> set qs")
    case True
    then show ?thesis using Cons by (simp add: find_snoc)
  next
    case False
    then have pq: "p = q" using Cons.prems(2) by simp
    have "snd q \<notin> snd ` set qs" using Cons.prems(1) by simp
    then have "\<forall>x\<in>set qs. snd x \<noteq> snd q" by (metis imageI)
    then have "find (\<lambda>s. stmt_name s = snd q) (rev (map g qs)) = None"
      by (auto simp: find_None_iff assms(3))
    then show ?thesis using pq by (simp add: find_snoc assms(3))
  qed
qed

lemma subject_column:
  assumes "p \<in> set (catalog res)"
  shows "map_of (columns (run w df (program res))) (snd p) = Some (w (stmt_for res p))"
  using find_rev_map [OF distinct_catalog assms, of "stmt_for res"]
  by (simp add: map_of_run program_map)

lemma other_column:
  assumes "c \<notin> set (map snd (catalog res))"
  shows "map_of (columns (run w df (program res))) c = map_of (columns df) c"
proof -
  have "find (\<lambda>s. stmt_name s = c) (rev (program res)) = None"
    using assms by (auto simp: find_None_iff program_map)
  then show ?thesis by (simp add: map_of_run)
qed

lemma has_col_getcol: "has_col f c \<Longrightarrow> \<exists>s. getcol f c = Inr s"
  by (auto simp: has_col_def getcol_def)


lemma not_has_col_getcol: "\<not> has_col f c \<Longrightarrow> getcol f c = Inl (KeyError c)"
  by (auto simp: has_col_def getcol_def)

lemma same_subject_same_rule:
  assumes "(a, c) \<in> set (catalog res)" and "(b, c) \<in> set (catalog res)"
  shows "a = b"
proof -
  have "distinct (map fst (map (\<lambda>p. (snd p, fst p)) (catalog res)))"
    using distinct_catalog [of res] by (simp add: comp_def)
  moreover have "(c, a) \<in> set (map (\<lambda>p. (snd p, fst p)) (catalog res))"
    and "(c, b) \<in> set (map (\<lambda>p. (snd p, fst p)) (catalog res))"
    using assms by force+
  ultimately show ?thesis by (rule eq_key_imp_eq_value)
qed

lemma svf_in_catalog: "(svf_rule, ''Social Values in Film'') \<in> set (catalog res)"
  by (simp add: catalog_def)

lemma svf_absent_holds: "\<not> has_col res ''SVF'' \<Longrightarrow> \<not> holds res i svf_rule"
  by (simp add: svf_rule_def has_col_def)

lemma run_result:
  assumes "has_col res ''CG''" and "has_col res ''Y''"
    and "getcol res ''StuID'' = Inr stu" and "getcol df ''Student ID'' = Inr sid"
    and "p \<in> set (catalog res)"
  shows "\<exists>df'. apply_prerequisites res df = Inr df' \<and> nrows df' = nrows df \<and>
           getcol df' ''Student ID'' = Inr sid \<and>
           map_of (columns df') (snd p) = Some (written res stu sid (nrows df) (stmt_for res p))"
proof -
  let ?w = "written res stu sid (nrows df)"
  let ?d = "run ?w df (program res)"
  have a: "apply_prerequisites res df = Inr ?d"
    using assms(1-4) by (rule apply_ok)
  have "map_of (columns ?d) ''Student ID'' = map_of (columns df) ''Student ID''"
    using sid_not_subject by (rule other_column)
  then have g: "getcol ?d ''Student ID'' = Inr sid"
    using assms(4) by (simp add: getcol_def)
  have c: "map_of (columns ?d) (snd p) = Some (?w (stmt_for res p))"
    using assms(5) by (rule subject_column)
  show ?thesis using a g c by simp
qed

lemma written_nth:
  assumes "wf_frame res" and "wf_frame df"
    and "getcol res ''StuID'' = Inr stu" and "getcol df ''Student ID'' = Inr sid"
    and "(e, c) \<in> set (catalog res)" and "eval res e = Inr m" and "j < nrows df"
  shows "written res stu sid (nrows df) (stmt_for res (e, c)) ! j =
           Num (if \<exists>i<nrows res. stu ! i = sid ! j \<and> m ! i then 1 else 0)"
proof -
  have ls: "length stu = nrows res" using assms(1,3) by (rule getcol_length)
  have ld: "length sid = nrows df" using assms(2,4) by (rule getcol_length)
  have lm: "length m = nrows res" using assms(1,6) by (rule eval_length)
  show ?thesis
  proof (cases "stmt_for res (e, c)")
    case (SetFlag e' c')
    then have "e' = e" by (auto simp: stmt_for_def split: if_splits)
    then have "written res stu sid (nrows df) (stmt_for res (e, c)) ! j =
        flags sid (unique (select stu m)) ! j"
      using SetFlag assms(6) by (simp add: the_mask_def)
    also have "\<dots> = Num (if \<exists>i. i < length stu \<and> i < length m \<and> m ! i \<and> stu ! i = sid ! j
        then 1 else 0)"
      using assms(7) ld by (simp add: flags_nth)
    also have "\<dots> = Num (if \<exists>i<nrows res. stu ! i = sid ! j \<and> m ! i then 1 else 0)"
      using ls lm by (metis (no_types, lifting))
    finally show ?thesis .
  next
    case (Assign0 c')
    then have sv: "c = ''Social Values in Film''" and ab: "\<not> has_col res ''SVF''"
      by (auto simp: stmt_for_def split: if_splits)
    have "e = svf_rule"
      using assms(5) svf_in_catalog [of res] unfolding sv by (rule same_subject_same_rule)
    then have "\<not> m ! i" if "i < nrows res" for i
      using eval_nth [OF assms(1,6) that] svf_absent_holds [OF ab] by simp
    then have "\<not> (\<exists>i<nrows res. stu ! i = sid ! j \<and> m ! i)" by blast
    then show ?thesis using Assign0 assms(7) by simp
  qed
qed

lemma length_written:
  "length sid = n \<Longrightarrow> length (written res stu sid n s) = n"
  by (cases s) auto

text \<open>
  Claim C3. For tables with their required columns, every catalog subject \<open>c\<close> with its
  predicate \<open>e\<close> gets a column in the output that holds one integer per roster row, 1 or 0,
  and the value at roster row \<open>j\<close> is 1 exactly when some row \<open>i\<close> of the records table has
  the StuID of row \<open>j\<close>'s Student ID and satisfies the predicate (the mask \<open>m\<close> of \<open>e\<close> is
  true at \<open>i\<close>).
\<close>

theorem C3_flag_iff_some_row:
  assumes "wf_frame res" and "wf_frame df"
    and "has_col res ''CG''" and "has_col res ''Y''"
    and "getcol res ''StuID'' = Inr stu" and "getcol df ''Student ID'' = Inr sid"
    and "(e, c) \<in> set (catalog res)"
  shows "\<exists>df' fl m. apply_prerequisites res df = Inr df' \<and>
           map_of (columns df') c = Some fl \<and> length fl = nrows df \<and>
           eval res e = Inr m \<and> length m = nrows res \<and>
           (\<forall>j<nrows df. fl ! j = Num (if \<exists>i<nrows res. stu ! i = sid ! j \<and> m ! i then 1 else 0))"
proof -
  obtain m where m: "eval res e = Inr m"
    using eval_catalog [OF assms(3,4,7)] by auto
  have lm: "length m = nrows res" using assms(1) m by (rule eval_length)
  have ld: "length sid = nrows df" using assms(2,6) by (rule getcol_length)
  let ?fl = "written res stu sid (nrows df) (stmt_for res (e, c))"
  obtain df' where d: "apply_prerequisites res df = Inr df'"
    and c: "map_of (columns df') c = Some ?fl"
    using run_result [OF assms(3,4,5,6,7)] by auto
  have "length ?fl = nrows df" using ld by (rule length_written)
  moreover have "\<forall>j<nrows df. ?fl ! j = Num (if \<exists>i<nrows res. stu ! i = sid ! j \<and> m ! i then 1 else 0)"
    using written_nth [OF assms(1,2,5,6,7) m] by blast
  ultimately show ?thesis using d c m lm by blast
qed

lemmas catalog_defs = catalog_def calls_before_svf_def calls_after_svf_def calls_english_def calls_defs

lemma recs_s2_facts:
  "wf_frame recs_s2" "has_col recs_s2 ''CG''" "has_col recs_s2 ''Y''"
  "getcol recs_s2 ''StuID'' = Inr [Str ''S2'']" "getcol recs_s2 ''Y'' = Inr [Num 9]"
  "getcol recs_s2 ''CG'' = Inr [Str ''N5'']" "nrows recs_s2 = 1"
  by (simp_all add: recs_s2_def wf_frame_def has_col_def getcol_def)

lemma roster_s2_facts:
  "wf_frame roster_s2" "getcol roster_s2 ''Student ID'' = Inr [Str ''S2'']" "nrows roster_s2 = 1"
  by (simp_all add: roster_s2_def wf_frame_def getcol_def)

theorem C3_flag_iff_some_row_witness:
  "wf_frame recs_s2 \<and> wf_frame roster_s2 \<and> has_col recs_s2 ''CG'' \<and> has_col recs_s2 ''Y'' \<and>
   getcol recs_s2 ''StuID'' = Inr [Str ''S2''] \<and> getcol roster_s2 ''Student ID'' = Inr [Str ''S2''] \<and>
   (y9, ''English 4'') \<in> set (catalog recs_s2) \<and>
   (\<exists>df' fl. apply_prerequisites recs_s2 roster_s2 = Inr df' \<and>
      map_of (columns df') ''English 4'' = Some fl \<and> length fl = 1 \<and>
      eval recs_s2 y9 = Inr [True] \<and> fl ! 0 = Num 1)"
proof -
  have c: "(y9, ''English 4'') \<in> set (catalog recs_s2)"
    by (simp add: catalog_defs)
  have e: "eval recs_s2 y9 = Inr [True]"
    by (simp add: y9_def recs_s2_facts eq_num_def)
  obtain df' fl m where r: "apply_prerequisites recs_s2 roster_s2 = Inr df'"
      "map_of (columns df') ''English 4'' = Some fl" "length fl = nrows roster_s2"
      "eval recs_s2 y9 = Inr m"
      "\<forall>j<nrows roster_s2. fl ! j = Num (if \<exists>i<nrows recs_s2. [Str ''S2''] ! i = [Str ''S2''] ! j \<and> m ! i then 1 else 0)"
    using C3_flag_iff_some_row [OF recs_s2_facts(1) roster_s2_facts(1) recs_s2_facts(2,3,4) roster_s2_facts(2) c]
    by blast
  have m: "m = [True]" using r(4) e by simp
  have "fl ! 0 = Num 1" using r(5) unfolding m by (simp add: recs_s2_facts roster_s2_facts)
  then show ?thesis
    using r(1,2,3) c e recs_s2_facts roster_s2_facts by auto
qed

lemma program_first: "\<exists>rest. program res = SetFlag y6 ''Design and Technologies'' # rest"
  by (simp add: program_def calls_before_svf_def calls_year7_def call_def)

lemma eval_y6: "has_col res ''Y'' \<Longrightarrow> \<exists>m. eval res y6 = Inr m"
  by (auto simp: y6_def dest: has_col_getcol)

lemma first_call_raises:
  assumes "has_col res ''Y''"
    and "\<not> has_col res ''StuID'' \<or> \<not> has_col df ''Student ID''"
  shows "exec_all res (program res) df =
           Inl (KeyError (if \<not> has_col res ''StuID'' then ''StuID'' else ''Student ID''), df)"
proof -
  obtain rest where p: "program res = SetFlag y6 ''Design and Technologies'' # rest"
    using program_first by blast
  obtain m where m: "eval res y6 = Inr m"
    using eval_y6 [OF assms(1)] by blast
  show ?thesis
  proof (cases "has_col res ''StuID''")
    case False
    then have "getcol res ''StuID'' = Inl (KeyError ''StuID'')" by (rule not_has_col_getcol)
    then show ?thesis using False p m by (simp add: set_flag_def)
  next
    case True
    then obtain stu where s: "getcol res ''StuID'' = Inr stu" using has_col_getcol by blast
    have "\<not> has_col df ''Student ID''" using True assms(2) by blast
    then have "getcol df ''Student ID'' = Inl (KeyError ''Student ID'')" by (rule not_has_col_getcol)
    then show ?thesis using True p m s by (simp add: set_flag_def)
  qed
qed

lemma missing_column_raises:
  assumes "\<not> has_col res ''CG'' \<or> \<not> has_col res ''Y'' \<or> \<not> has_col res ''StuID'' \<or>
           \<not> has_col df ''Student ID''"
  shows "apply_prerequisites res df = Inl (KeyError (required_missing res df), df)"
proof (cases "has_col res ''CG''")
  case False
  then show ?thesis
    by (simp add: apply_prerequisites_def required_missing_def not_has_col_getcol)
next
  case cg: True
  then obtain c where c: "getcol res ''CG'' = Inr c" using has_col_getcol by blast
  show ?thesis
  proof (cases "has_col res ''Y''")
    case False
    then show ?thesis
      using cg c by (simp add: apply_prerequisites_def required_missing_def not_has_col_getcol)
  next
    case y: True
    then obtain yv where yv: "getcol res ''Y'' = Inr yv" using has_col_getcol by blast
    have "\<not> has_col res ''StuID'' \<or> \<not> has_col df ''Student ID''"
      using assms cg y by blast
    from first_call_raises [OF y this] show ?thesis
      using cg y c yv by (simp add: apply_prerequisites_def required_missing_def)
  qed
qed

text \<open>
  Claim C4. When a required column is missing (CG, Y or StuID in the records, Student ID in
  the roster) the run raises KeyError for the first of them it reads, and the roster at that
  moment is the roster it was given: no flag column has been written.
\<close>

theorem C4_missing_required_column:
  assumes "\<not> has_col res ''CG'' \<or> \<not> has_col res ''Y'' \<or> \<not> has_col res ''StuID'' \<or>
           \<not> has_col df ''Student ID''"
  shows "apply_prerequisites res df = Inl (KeyError (required_missing res df), df)"
  using assms by (rule missing_column_raises)

theorem C4_missing_required_column_witness:
  "\<not> has_col res_no_cg ''CG'' \<and>
   apply_prerequisites res_no_cg roster_s2 = Inl (KeyError ''CG'', roster_s2) \<and>
   \<not> has_col res_no_stuid ''StuID'' \<and>
   apply_prerequisites res_no_stuid roster_s2 = Inl (KeyError ''StuID'', roster_s2) \<and>
   \<not> has_col df_no_sid ''Student ID'' \<and>
   apply_prerequisites recs_s2 df_no_sid = Inl (KeyError ''Student ID'', df_no_sid)"
proof -
  have a: "\<not> has_col res_no_cg ''CG''" by (simp add: res_no_cg_def has_col_def)
  have b: "\<not> has_col res_no_stuid ''StuID''" "has_col res_no_stuid ''CG''" "has_col res_no_stuid ''Y''"
    by (simp_all add: res_no_stuid_def has_col_def)
  have c: "\<not> has_col df_no_sid ''Student ID''" by (simp add: df_no_sid_def has_col_def)
  have r5: "has_col recs_s2 ''StuID''" by (simp add: recs_s2_def has_col_def)
  have "apply_prerequisites res_no_cg roster_s2 = Inl (KeyError ''CG'', roster_s2)"
    using C4_missing_required_column [of res_no_cg roster_s2] a by (simp add: required_missing_def)
  moreover have "apply_prerequisites res_no_stuid roster_s2 = Inl (KeyError ''StuID'', roster_s2)"
    using C4_missing_required_column [of res_no_stuid roster_s2] b by (simp add: required_missing_def)
  moreover have "apply_prerequisites recs_s2 df_no_sid = Inl (KeyError ''Student ID'', df_no_sid)"
    using C4_missing_required_column [of recs_s2 df_no_sid] c r5 recs_s2_facts(2,3)
    by (simp add: required_missing_def)
  ultimately show ?thesis using a b c by simp
qed

lemma returns_has_required:
  assumes "apply_prerequisites res df = Inr df'"
  shows "has_col res ''CG'' \<and> has_col res ''Y'' \<and> has_col res ''StuID'' \<and> has_col df ''Student ID''"
proof (rule ccontr)
  assume "\<not> ?thesis"
  then have "\<not> has_col res ''CG'' \<or> \<not> has_col res ''Y'' \<or> \<not> has_col res ''StuID'' \<or>
           \<not> has_col df ''Student ID''" by blast
  then have "apply_prerequisites res df = Inl (KeyError (required_missing res df), df)"
    by (rule missing_column_raises)
  then show False using assms by simp
qed

lemma upd_col_same: "map_of ps c = Some v \<Longrightarrow> upd_col c v ps = ps"
  by (induction ps) (auto split: if_splits)

lemma assign_same: "map_of (columns f) c = Some v \<Longrightarrow> assign f c v = f"
  by (simp add: assign_def upd_col_same)

lemma run_fixed:
  "(\<And>s. s \<in> set ss \<Longrightarrow> map_of (columns d) (stmt_name s) = Some (w s)) \<Longrightarrow> run w d ss = d"
  unfolding run_def by (induction ss) (auto simp: assign_same)

text \<open>
  Claim C8. A run that returns is idempotent over the roster: running again on the same
  records with the roster the first run returned gives that roster back, so every flag
  column holds the values of the first run.
\<close>

theorem C8_idempotent:
  assumes "apply_prerequisites res df = Inr df1"
  shows "apply_prerequisites res df1 = Inr df1"
proof -
  from returns_has_required [OF assms]
  have cg: "has_col res ''CG''" and y: "has_col res ''Y''"
    and s: "has_col res ''StuID''" and d: "has_col df ''Student ID''" by blast+
  obtain stu where stu: "getcol res ''StuID'' = Inr stu" using s has_col_getcol by blast
  obtain sid where sid: "getcol df ''Student ID'' = Inr sid" using d has_col_getcol by blast
  let ?w = "written res stu sid (nrows df)"
  have r: "df1 = run ?w df (program res)"
    using apply_ok [OF cg y stu sid] assms by simp
  have n: "nrows df1 = nrows df" unfolding r by simp
  have "map_of (columns df1) ''Student ID'' = map_of (columns df) ''Student ID''"
    unfolding r using sid_not_subject by (rule other_column)
  then have sid1: "getcol df1 ''Student ID'' = Inr sid"
    using sid by (simp add: getcol_def)
  have "apply_prerequisites res df1 = Inr (run (written res stu sid (nrows df1)) df1 (program res))"
    using cg y stu sid1 by (rule apply_ok)
  moreover have "run ?w df1 (program res) = df1"
  proof (rule run_fixed)
    fix s assume "s \<in> set (program res)"
    then obtain p where p: "p \<in> set (catalog res)" and sp: "s = stmt_for res p"
      by (auto simp: program_map)
    show "map_of (columns df1) (stmt_name s) = Some (?w s)"
      unfolding r sp using subject_column [OF p] by simp
  qed
  ultimately show ?thesis using n by simp
qed

theorem C8_idempotent_witness:
  "\<exists>df1. apply_prerequisites recs_s2 roster_s2 = Inr df1 \<and> apply_prerequisites recs_s2 df1 = Inr df1"
proof -
  obtain df1 where a: "apply_prerequisites recs_s2 roster_s2 = Inr df1"
    using apply_ok [OF recs_s2_facts(2,3,4) roster_s2_facts(2)] by blast
  from C8_idempotent [OF a] a show ?thesis by blast
qed

lemma names_program: "map stmt_name (program res) = map snd (catalog res)"
  by (simp add: program_map comp_def)

lemma written_zero:
  assumes "j < n" and "length sid = n" and "sid ! j \<notin> set stu"
  shows "written res stu sid n s ! j = Num 0"
proof (cases s)
  case (SetFlag e c)
  have "sid ! j \<notin> set (unique (select stu (the_mask res e)))"
    using assms(3) by (auto simp: set_unique set_select)
  then show ?thesis using SetFlag assms(1,2) by (simp add: flags_def)
next
  case (Assign0 c)
  then show ?thesis using assms(1) by simp
qed

lemma written_01: "set (written res stu sid n s) \<subseteq> {Num 0, Num 1}"
  by (cases s) (auto simp: flags_def split: if_splits)

text \<open>
  Claim C6. The output has the rows of the roster and no others (same row count, same
  Student ID column), whatever StuID values the records hold, and the run raises nothing; a
  roster row whose Student ID is the StuID of no record row has flag 0 in the column of every
  catalog subject.
\<close>

theorem C6_join:
  assumes "wf_frame df" and "has_col res ''CG''" and "has_col res ''Y''"
    and "getcol res ''StuID'' = Inr stu" and "getcol df ''Student ID'' = Inr sid"
  shows "\<exists>df'. apply_prerequisites res df = Inr df' \<and> nrows df' = nrows df \<and>
           getcol df' ''Student ID'' = Inr sid \<and>
           (\<forall>j<nrows df. sid ! j \<notin> set stu \<longrightarrow>
              (\<forall>p\<in>set (catalog res). \<exists>fl. map_of (columns df') (snd p) = Some fl \<and> fl ! j = Num 0))"
proof -
  let ?w = "written res stu sid (nrows df)"
  let ?d = "run ?w df (program res)"
  have ld: "length sid = nrows df" using assms(1,5) by (rule getcol_length)
  have a: "apply_prerequisites res df = Inr ?d"
    using assms(2-5) by (rule apply_ok)
  have "map_of (columns ?d) ''Student ID'' = map_of (columns df) ''Student ID''"
    using sid_not_subject by (rule other_column)
  then have g: "getcol ?d ''Student ID'' = Inr sid"
    using assms(5) by (simp add: getcol_def)
  have z: "\<exists>fl. map_of (columns ?d) (snd p) = Some fl \<and> fl ! j = Num 0"
    if "j < nrows df" and "sid ! j \<notin> set stu" and "p \<in> set (catalog res)" for j p
    using subject_column [OF that(3)] written_zero [OF that(1) ld that(2)] by blast
  show ?thesis using a g z by auto
qed

theorem C6_join_witness:
  "wf_frame roster_two \<and> has_col recs_s2 ''CG'' \<and> has_col recs_s2 ''Y'' \<and>
   getcol recs_s2 ''StuID'' = Inr [Str ''S2''] \<and>
   getcol roster_two ''Student ID'' = Inr [Str ''S2'', Str ''S9''] \<and>
   (\<exists>df' fl. apply_prerequisites recs_s2 roster_two = Inr df' \<and> nrows df' = 2 \<and>
      map_of (columns df') ''English 4'' = Some fl \<and> fl ! 1 = Num 0)"
proof -
  have w: "wf_frame roster_two" and g: "getcol roster_two ''Student ID'' = Inr [Str ''S2'', Str ''S9'']"
    and n: "nrows roster_two = 2"
    by (simp_all add: roster_two_def wf_frame_def getcol_def)
  have c: "(y9, ''English 4'') \<in> set (catalog recs_s2)"
    by (simp add: catalog_defs)
  obtain df' where r: "apply_prerequisites recs_s2 roster_two = Inr df'" "nrows df' = nrows roster_two"
    and z: "\<forall>j<nrows roster_two. [Str ''S2'', Str ''S9''] ! j \<notin> set [Str ''S2''] \<longrightarrow>
       (\<forall>p\<in>set (catalog recs_s2). \<exists>fl. map_of (columns df') (snd p) = Some fl \<and> fl ! j = Num 0)"
    using C6_join [OF w recs_s2_facts(2,3,4) g] by blast
  have "\<forall>p\<in>set (catalog recs_s2). \<exists>fl. map_of (columns df') (snd p) = Some fl \<and> fl ! 1 = Num 0"
    using z [rule_format, of 1] by (simp add: n)
  then obtain fl where "map_of (columns df') ''English 4'' = Some fl" "fl ! 1 = Num 0"
    using c by fastforce
  then show ?thesis using w g r n recs_s2_facts by auto
qed

text \<open>
  Claim C7, as the code has it. The output is the roster with the same rows; the columns it
  had keep their order and their places, and the catalog subjects it did not have are
  appended in catalog order. A column whose name is no catalog subject keeps its values.
  The column of every catalog subject, appended or already there, holds that subject's
  flags: one integer per roster row, 1 when some record row of that student satisfies the
  subject's predicate and 0 otherwise, whatever the column held before.
\<close>

theorem C7_frame_amended:
  assumes "wf_frame res" and "wf_frame df" and "has_col res ''CG''" and "has_col res ''Y''"
    and "getcol res ''StuID'' = Inr stu" and "getcol df ''Student ID'' = Inr sid"
  shows "\<exists>df'. apply_prerequisites res df = Inr df' \<and> nrows df' = nrows df \<and>
           map fst (columns df') =
             map fst (columns df) @
             filter (\<lambda>n. n \<notin> set (map fst (columns df))) (map snd (catalog res)) \<and>
           (\<forall>c. c \<notin> set (map snd (catalog res)) \<longrightarrow>
              map_of (columns df') c = map_of (columns df) c) \<and>
           (\<forall>p\<in>set (catalog res). \<exists>fl m. map_of (columns df') (snd p) = Some fl \<and>
              length fl = nrows df \<and> eval res (fst p) = Inr m \<and>
              (\<forall>j<nrows df. fl ! j =
                 Num (if \<exists>i<nrows res. stu ! i = sid ! j \<and> m ! i then 1 else 0)))"
proof -
  let ?w = "written res stu sid (nrows df)"
  let ?d = "run ?w df (program res)"
  have ld: "length sid = nrows df" using assms(2,6) by (rule getcol_length)
  have a: "apply_prerequisites res df = Inr ?d"
    using assms(3-6) by (rule apply_ok)
  have "distinct (map stmt_name (program res))"
    unfolding names_program by (rule distinct_catalog)
  then have n: "map fst (columns ?d) =
      map fst (columns df) @ filter (\<lambda>n. n \<notin> set (map fst (columns df))) (map snd (catalog res))"
    unfolding names_program [symmetric] by (rule names_run)
  have o: "\<forall>c. c \<notin> set (map snd (catalog res)) \<longrightarrow> map_of (columns ?d) c = map_of (columns df) c"
    using other_column by blast
  have f: "\<exists>fl m. map_of (columns ?d) (snd p) = Some fl \<and> length fl = nrows df \<and>
      eval res (fst p) = Inr m \<and>
      (\<forall>j<nrows df. fl ! j = Num (if \<exists>i<nrows res. stu ! i = sid ! j \<and> m ! i then 1 else 0))"
    if p: "p \<in> set (catalog res)" for p
  proof -
    let ?fl = "?w (stmt_for res p)"
    obtain m where m: "eval res (fst p) = Inr m"
      using eval_catalog [OF assms(3,4) p] by blast
    have pe: "(fst p, snd p) \<in> set (catalog res)" using p by simp
    have c: "map_of (columns ?d) (snd p) = Some ?fl"
      using p by (rule subject_column)
    have l: "length ?fl = nrows df" using ld by (rule length_written)
    have "?w (stmt_for res (fst p, snd p)) ! j =
        Num (if \<exists>i<nrows res. stu ! i = sid ! j \<and> m ! i then 1 else 0)" if "j < nrows df" for j
      using assms(1,2,5,6) pe m that by (rule written_nth)
    then have v: "\<forall>j<nrows df. ?fl ! j =
        Num (if \<exists>i<nrows res. stu ! i = sid ! j \<and> m ! i then 1 else 0)" by simp
    show ?thesis using c l m v by blast
  qed
  show ?thesis using a n o f by simp
qed

lemma roster_booked_facts:
  "wf_frame roster_booked" "getcol roster_booked ''Student ID'' = Inr [Str ''S2'']" "nrows roster_booked = 1"
  "map_of (columns roster_booked) ''English 1'' = Some [Str ''x'']"
  "map fst (columns roster_booked) = [''Student ID'', ''English 1'']"
  by (simp_all add: roster_booked_def wf_frame_def getcol_def)

lemma recs_s1_facts:
  "wf_frame recs_s1" "has_col recs_s1 ''CG''" "has_col recs_s1 ''Y''"
  "getcol recs_s1 ''StuID'' = Inr [Str ''S1'']" "getcol recs_s1 ''Y'' = Inr [Num 6]"
  "getcol recs_s1 ''CG'' = Inr [Str ''B'']" "nrows recs_s1 = 1" "\<not> has_col recs_s1 ''BIOU12''"
  by (simp_all add: recs_s1_def wf_frame_def has_col_def getcol_def)

lemma roster_s1_facts:
  "wf_frame roster_s1" "getcol roster_s1 ''Student ID'' = Inr [Str ''S1'']" "nrows roster_s1 = 1"
  by (simp_all add: roster_s1_def wf_frame_def getcol_def)

lemmas mask_defs = isin_def eq_str_def ne_str_def eq_num_def mand_def mor_def sget_def
  select_def flags_def the_mask_def

theorem C7_frame_amended_witness:
  "wf_frame recs_s2 \<and> wf_frame roster_booked \<and> has_col recs_s2 ''CG'' \<and> has_col recs_s2 ''Y'' \<and>
   getcol recs_s2 ''StuID'' = Inr [Str ''S2''] \<and>
   getcol roster_booked ''Student ID'' = Inr [Str ''S2''] \<and>
   map_of (columns roster_booked) ''English 1'' = Some [Str ''x''] \<and>
   (\<exists>df'. apply_prerequisites recs_s2 roster_booked = Inr df' \<and> nrows df' = 1 \<and>
      take 2 (map fst (columns df')) = [''Student ID'', ''English 1''] \<and>
      map_of (columns df') ''Student ID'' = Some [Str ''S2''] \<and>
      map_of (columns df') ''English 1'' = Some [Num 0] \<and>
      map_of (columns df') ''English 4'' = Some [Num 1])"
proof -
  obtain df' where r: "apply_prerequisites recs_s2 roster_booked = Inr df'"
      "nrows df' = nrows roster_booked"
    and n: "map fst (columns df') =
       map fst (columns roster_booked) @
       filter (\<lambda>n. n \<notin> set (map fst (columns roster_booked))) (map snd (catalog recs_s2))"
    and o: "\<forall>c. c \<notin> set (map snd (catalog recs_s2)) \<longrightarrow>
       map_of (columns df') c = map_of (columns roster_booked) c"
    and f: "\<forall>p\<in>set (catalog recs_s2). \<exists>fl m. map_of (columns df') (snd p) = Some fl \<and>
       length fl = nrows roster_booked \<and> eval recs_s2 (fst p) = Inr m \<and>
       (\<forall>j<nrows roster_booked. fl ! j =
          Num (if \<exists>i<nrows recs_s2. [Str ''S2''] ! i = [Str ''S2''] ! j \<and> m ! i then 1 else 0))"
    using C7_frame_amended [OF recs_s2_facts(1) roster_booked_facts(1) recs_s2_facts(2,3,4)
        roster_booked_facts(2)] by blast
  have t: "take 2 (map fst (columns df')) = [''Student ID'', ''English 1'']"
    unfolding n roster_booked_facts(5) by simp
  have "map_of (columns df') ''Student ID'' = map_of (columns roster_booked) ''Student ID''"
    using o sid_not_subject by blast
  then have s: "map_of (columns df') ''Student ID'' = Some [Str ''S2'']"
    by (simp add: roster_booked_def)
  have c1: "(y6, ''English 1'') \<in> set (catalog recs_s2)"
    and c4: "(y9, ''English 4'') \<in> set (catalog recs_s2)"
    by (simp_all add: catalog_defs)
  have e1: "eval recs_s2 y6 = Inr [False]" and e4: "eval recs_s2 y9 = Inr [True]"
    by (simp_all add: y6_def y9_def recs_s2_facts eq_num_def)
  obtain fl1 m1 where k1: "map_of (columns df') ''English 1'' = Some fl1" "length fl1 = 1"
      "eval recs_s2 y6 = Inr m1"
      "\<forall>j<1. fl1 ! j = Num (if \<exists>i<1. [Str ''S2''] ! i = [Str ''S2''] ! j \<and> m1 ! i then 1 else 0)"
    using f [THEN bspec, OF c1] unfolding recs_s2_facts roster_booked_facts fst_conv snd_conv
    by blast
  have "m1 = [False]" using k1(3) e1 by simp
  then have "fl1 ! 0 = Num 0" using k1(4) by simp
  then have v1: "fl1 = [Num 0]" using k1(2) by (cases fl1) simp_all
  obtain fl4 m4 where k4: "map_of (columns df') ''English 4'' = Some fl4" "length fl4 = 1"
      "eval recs_s2 y9 = Inr m4"
      "\<forall>j<1. fl4 ! j = Num (if \<exists>i<1. [Str ''S2''] ! i = [Str ''S2''] ! j \<and> m4 ! i then 1 else 0)"
    using f [THEN bspec, OF c4] unfolding recs_s2_facts roster_booked_facts fst_conv snd_conv
    by blast
  have "m4 = [True]" using k4(3) e4 by simp
  then have "fl4 ! 0 = Num 1" using k4(4) by simp
  then have v4: "fl4 = [Num 1]" using k4(2) by (cases fl4) simp_all
  show ?thesis
    using r t s k1(1) k4(1) v1 v4 recs_s2_facts(1,2,3,4) roster_booked_facts(1,2,3,4) by simp
qed

text \<open>
  Claim C7 as stated fails on a roster that already has a column named like a catalog
  subject: its values are overwritten and no column is appended for it. The roster here has
  the columns Student ID and English 1; the output has 134 columns, not 135, and English 1
  holds the flag.
\<close>

theorem C7_frame_counterexample:
  "\<exists>df'. apply_prerequisites recs_s2 roster_booked = Inr df' \<and>
     map_of (columns roster_booked) ''English 1'' = Some [Str ''x''] \<and>
     map_of (columns df') ''English 1'' = Some [Num 0] \<and>
     length (catalog recs_s2) = 133 \<and> length (columns roster_booked) = 2 \<and> length (columns df') = 134"
proof -
  let ?w = "written recs_s2 [Str ''S2''] [Str ''S2''] (nrows roster_booked)"
  let ?d = "run ?w roster_booked (program recs_s2)"
  have a: "apply_prerequisites recs_s2 roster_booked = Inr ?d"
    using recs_s2_facts(2,3,4) roster_booked_facts(2) by (rule apply_ok)
  have c: "(y6, ''English 1'') \<in> set (catalog recs_s2)"
    by (simp add: catalog_defs)
  have "map_of (columns ?d) (snd (y6, ''English 1'')) = Some (?w (stmt_for recs_s2 (y6, ''English 1'')))"
    using c by (rule subject_column)
  moreover have "?w (stmt_for recs_s2 (y6, ''English 1'')) = [Num 0]"
    by (simp add: stmt_for_def y6_def recs_s2_facts mask_defs)
  ultimately have e: "map_of (columns ?d) ''English 1'' = Some [Num 0]" by simp
  have "distinct (map stmt_name (program recs_s2))"
    unfolding names_program by (rule distinct_catalog)
  then have "map fst (columns ?d) =
      map fst (columns roster_booked) @ filter (\<lambda>n. n \<notin> set (map fst (columns roster_booked))) (map snd (catalog recs_s2))"
    unfolding names_program [symmetric] by (rule names_run)
  then have "length (map fst (columns ?d)) = 134"
    unfolding roster_booked_facts(5) by (simp add: catalog_defs)
  then have l: "length (columns ?d) = 134" by simp
  have k: "length (catalog recs_s2) = 133" by (simp add: catalog_defs)
  show ?thesis using a e l k roster_booked_facts(4) by (simp add: roster_booked_def)
qed

text \<open>
  Claim C5. Records with the one row StuID S2, Y 9, CG N5 and no subject-score column,
  roster with the one row S2: the Biology U12 flag of S2 is 1. The rule is the disjunction
  of four clauses; the clause \<^verbatim>\<open>y9 & new4\<close> is true of the row, the clause on the legacy
  composite grade and the year-10 clauses are false.
\<close>

theorem C5_biology_u12_override:
  "(Or (Or (Or (And (And y9 cgtop4)
                  (Or (Isin (SGet ''SCI3'') [''B+'', ''A'', ''A+'']) (NeS (SGet ''RSC1'') '''')))
               (And y9 new4))
           (And y10 new4))
       (And (And y10 sci_min10) (EqS (SGet ''BIOU12'') '''')), ''Biology U12'') \<in> set (catalog recs_s2) \<and>
   (\<exists>df'. apply_prerequisites recs_s2 roster_s2 = Inr df' \<and>
      map_of (columns df') ''Biology U12'' = Some [Num 1]) \<and>
   eval recs_s2 (And y9 new4) = Inr [True] \<and>
   eval recs_s2 (And (And y9 cgtop4)
      (Or (Isin (SGet ''SCI3'') [''B+'', ''A'', ''A+'']) (NeS (SGet ''RSC1'') ''''))) = Inr [False] \<and>
   eval recs_s2 (And y10 new4) = Inr [False] \<and>
   eval recs_s2 (And (And y10 sci_min10) (EqS (SGet ''BIOU12'') '''')) = Inr [False]"
proof -
  let ?e = "Or (Or (Or (And (And y9 cgtop4)
                  (Or (Isin (SGet ''SCI3'') [''B+'', ''A'', ''A+'']) (NeS (SGet ''RSC1'') '''')))
               (And y9 new4))
           (And y10 new4))
       (And (And y10 sci_min10) (EqS (SGet ''BIOU12'') ''''))"
  let ?w = "written recs_s2 [Str ''S2''] [Str ''S2''] (nrows roster_s2)"
  have c: "(?e, ''Biology U12'') \<in> set (catalog recs_s2)"
    by (simp add: catalog_defs)
  have e1: "eval recs_s2 (And y9 new4) = Inr [True]"
    by (simp add: base_defs recs_s2_facts mask_defs)
  have e2: "eval recs_s2 (And (And y9 cgtop4)
      (Or (Isin (SGet ''SCI3'') [''B+'', ''A'', ''A+'']) (NeS (SGet ''RSC1'') ''''))) = Inr [False]"
    by (simp add: base_defs recs_s2_facts mask_defs) (simp add: recs_s2_def)
  have e3: "eval recs_s2 (And y10 new4) = Inr [False]"
    by (simp add: base_defs recs_s2_facts mask_defs)
  have e4: "eval recs_s2 (And (And y10 sci_min10) (EqS (SGet ''BIOU12'') '''')) = Inr [False]"
    by (simp add: base_defs recs_s2_facts mask_defs) (simp add: recs_s2_def)
  have "eval recs_s2 ?e = Inr [True]"
    using e1 e2 e3 e4 by (simp add: mor_def)
  then have "?w (stmt_for recs_s2 (?e, ''Biology U12'')) = [Num 1]"
    by (simp add: stmt_for_def the_mask_def select_def flags_def)
  moreover obtain df' where "apply_prerequisites recs_s2 roster_s2 = Inr df'"
    and "map_of (columns df') (snd (?e, ''Biology U12'')) = Some (?w (stmt_for recs_s2 (?e, ''Biology U12'')))"
    using run_result [OF recs_s2_facts(2,3,4) roster_s2_facts(2) c] by blast
  ultimately have "\<exists>df'. apply_prerequisites recs_s2 roster_s2 = Inr df' \<and>
      map_of (columns df') ''Biology U12'' = Some [Num 1]" by auto
  then show ?thesis using c e1 e2 e3 e4 by blast
qed

text \<open>
  Claim C1 at a table without the column BIOU12 (one record row: StuID S1, Y 6, CG B; one
  roster row: S1). The default of \<^verbatim>\<open>sget\<close> is the boolean False, and \<^verbatim>\<open>False != ''\<close> is true,
  so the predicate of Biology U34 is true of the row and the flag of S1 is 1, not 0.
\<close>

theorem C1_absent_marker_column_flags_everyone:
  "\<not> has_col recs_s1 ''BIOU12'' \<and>
   (NeS (SGet ''BIOU12'') '''', ''Biology U34'') \<in> set (catalog recs_s1) \<and>
   eval recs_s1 (NeS (SGet ''BIOU12'') '''') = Inr [True] \<and>
   (\<exists>df'. apply_prerequisites recs_s1 roster_s1 = Inr df' \<and>
      map_of (columns df') ''Biology U34'' = Some [Num 1])"
proof -
  let ?e = "NeS (SGet ''BIOU12'') ''''"
  let ?w = "written recs_s1 [Str ''S1''] [Str ''S1''] (nrows roster_s1)"
  have c: "(?e, ''Biology U34'') \<in> set (catalog recs_s1)"
    by (simp add: catalog_defs)
  have e: "eval recs_s1 ?e = Inr [True]"
    by (simp add: mask_defs recs_s1_facts) (simp add: recs_s1_def)
  then have "?w (stmt_for recs_s1 (?e, ''Biology U34'')) = [Num 1]"
    by (simp add: stmt_for_def the_mask_def select_def flags_def)
  moreover obtain df' where "apply_prerequisites recs_s1 roster_s1 = Inr df'"
    and "map_of (columns df') (snd (?e, ''Biology U34'')) = Some (?w (stmt_for recs_s1 (?e, ''Biology U34'')))"
    using run_result [OF recs_s1_facts(2,3,4) roster_s1_facts(2) c] by blast
  ultimately have "\<exists>df'. apply_prerequisites recs_s1 roster_s1 = Inr df' \<and>
      map_of (columns df') ''Biology U34'' = Some [Num 1]" by auto
  then show ?thesis using c e recs_s1_facts(8) by blast
qed

lemma holds_english:
  "holds res i (mask_any_u12_english res) =
     (\<exists>col\<in>set [''ENGU12'', ''ELANU12'', ''LITU12''].
        \<exists>s. map_of (columns res) col = Some s \<and> s ! i \<noteq> Str '''')"
proof (cases "map_of (columns res) ''ENGU12''")
  case a: None
  show ?thesis
  proof (cases "map_of (columns res) ''ELANU12''")
    case b: None
    show ?thesis
      by (cases "map_of (columns res) ''LITU12''")
        (auto simp add: mask_any_u12_english_def has_col_def a b)
  next
    case b: (Some s2)
    show ?thesis
      by (cases "map_of (columns res) ''LITU12''")
        (auto simp add: mask_any_u12_english_def has_col_def a b)
  qed
next
  case a: (Some s1)
  show ?thesis
  proof (cases "map_of (columns res) ''ELANU12''")
    case b: None
    show ?thesis
      by (cases "map_of (columns res) ''LITU12''")
        (auto simp add: mask_any_u12_english_def has_col_def a b)
  next
    case b: (Some s2)
    show ?thesis
      by (cases "map_of (columns res) ''LITU12''")
        (auto simp add: mask_any_u12_english_def has_col_def a b)
  qed
qed

lemma english_in_catalog:
  "(mask_any_u12_english res, ''English U34'') \<in> set (catalog res)"
  "(mask_any_u12_english res, ''English Language U34'') \<in> set (catalog res)"
  "(mask_any_u12_english res, ''Literature U34'') \<in> set (catalog res)"
  by (simp_all add: catalog_def calls_after_svf_def calls_english_def)

lemma written_english:
  "written res stu sid n (stmt_for res (e, ''English U34'')) =
     flags sid (unique (select stu (the_mask res e)))"
  "written res stu sid n (stmt_for res (e, ''English Language U34'')) =
     flags sid (unique (select stu (the_mask res e)))"
  "written res stu sid n (stmt_for res (e, ''Literature U34'')) =
     flags sid (unique (select stu (the_mask res e)))"
  by (simp_all add: stmt_for_def)

text \<open>
  Claim C9. English U34, English Language U34 and Literature U34 get the same column. Its
  value at a roster row is 1 exactly when some record row of that student has, in one of
  the columns ENGU12, ELANU12, LITU12 that the records table has, a value other than the
  empty string; a column the table does not have contributes nothing.
\<close>

theorem C9_english_u34_same_mask:
  assumes "wf_frame res" and "wf_frame df"
    and "has_col res ''CG''" and "has_col res ''Y''"
    and "getcol res ''StuID'' = Inr stu" and "getcol df ''Student ID'' = Inr sid"
  shows "\<exists>df' fl. apply_prerequisites res df = Inr df' \<and>
           map_of (columns df') ''English U34'' = Some fl \<and>
           map_of (columns df') ''English Language U34'' = Some fl \<and>
           map_of (columns df') ''Literature U34'' = Some fl \<and>
           length fl = nrows df \<and>
           (\<forall>j<nrows df. fl ! j =
              Num (if \<exists>i<nrows res. stu ! i = sid ! j \<and>
                        (\<exists>col\<in>set [''ENGU12'', ''ELANU12'', ''LITU12''].
                           \<exists>s. map_of (columns res) col = Some s \<and> s ! i \<noteq> Str '''')
                   then 1 else 0))"
proof -
  let ?e = "mask_any_u12_english res"
  let ?w = "written res stu sid (nrows df)"
  let ?d = "run ?w df (program res)"
  let ?fl = "flags sid (unique (select stu (the_mask res ?e)))"
  have ld: "length sid = nrows df" using assms(2,6) by (rule getcol_length)
  obtain m where m: "eval res ?e = Inr m"
    using eval_catalog [OF assms(3,4) english_in_catalog(1)] by auto
  have a: "apply_prerequisites res df = Inr ?d"
    using assms(3-6) by (rule apply_ok)
  have c1: "map_of (columns ?d) ''English U34'' = Some ?fl"
    using subject_column [OF english_in_catalog(1), where w = ?w and df = df] by (simp add: written_english)
  have c2: "map_of (columns ?d) ''English Language U34'' = Some ?fl"
    using subject_column [OF english_in_catalog(2), where w = ?w and df = df] by (simp add: written_english)
  have c3: "map_of (columns ?d) ''Literature U34'' = Some ?fl"
    using subject_column [OF english_in_catalog(3), where w = ?w and df = df] by (simp add: written_english)
  have v: "?fl ! j = Num (if \<exists>i<nrows res. stu ! i = sid ! j \<and>
                        (\<exists>col\<in>set [''ENGU12'', ''ELANU12'', ''LITU12''].
                           \<exists>s. map_of (columns res) col = Some s \<and> s ! i \<noteq> Str '''')
                   then 1 else 0)" if j: "j < nrows df" for j
  proof -
    have "?fl ! j = ?w (stmt_for res (?e, ''English U34'')) ! j"
      by (simp add: written_english)
    also have "\<dots> = Num (if \<exists>i<nrows res. stu ! i = sid ! j \<and> m ! i then 1 else 0)"
      using assms(1,2,5,6) english_in_catalog(1) m j by (rule written_nth)
    also have "(\<exists>i<nrows res. stu ! i = sid ! j \<and> m ! i) =
        (\<exists>i<nrows res. stu ! i = sid ! j \<and> holds res i ?e)"
      using eval_nth [OF assms(1) m] by blast
    finally show ?thesis unfolding holds_english .
  qed
  have "length ?fl = nrows df" using ld by simp
  then show ?thesis using a c1 c2 c3 v by blast
qed

theorem C9_english_u34_same_mask_witness:
  "wf_frame recs_two \<and> wf_frame roster_swapped \<and> has_col recs_two ''CG'' \<and> has_col recs_two ''Y'' \<and>
   getcol recs_two ''StuID'' = Inr [Str ''S1'', Str ''S2''] \<and>
   getcol roster_swapped ''Student ID'' = Inr [Str ''S2'', Str ''S1''] \<and>
   (\<exists>df'. apply_prerequisites recs_two roster_swapped = Inr df' \<and>
      map_of (columns df') ''English U34'' = Some [Num 0, Num 1] \<and>
      map_of (columns df') ''English Language U34'' = Some [Num 0, Num 1] \<and>
      map_of (columns df') ''Literature U34'' = Some [Num 0, Num 1])"
proof -
  have h: "wf_frame recs_two" "wf_frame roster_swapped" "has_col recs_two ''CG''" "has_col recs_two ''Y''"
    "getcol recs_two ''StuID'' = Inr [Str ''S1'', Str ''S2'']"
    "getcol roster_swapped ''Student ID'' = Inr [Str ''S2'', Str ''S1'']"
    by (simp_all add: recs_two_def roster_swapped_def wf_frame_def has_col_def getcol_def)
  have n: "nrows recs_two = 2" "nrows roster_swapped = 2" by (simp_all add: recs_two_def roster_swapped_def)
  have k: "map_of (columns recs_two) ''ENGU12'' = None" "map_of (columns recs_two) ''ELANU12'' = None"
    "map_of (columns recs_two) ''LITU12'' = Some [Str ''B+'', Str '''']"
    by (simp_all add: recs_two_def)
  obtain df' fl where r: "apply_prerequisites recs_two roster_swapped = Inr df'"
    "map_of (columns df') ''English U34'' = Some fl"
    "map_of (columns df') ''English Language U34'' = Some fl"
    "map_of (columns df') ''Literature U34'' = Some fl"
    "length fl = nrows roster_swapped"
    and v: "\<forall>j<nrows roster_swapped. fl ! j =
       Num (if \<exists>i<nrows recs_two. [Str ''S1'', Str ''S2''] ! i = [Str ''S2'', Str ''S1''] ! j \<and>
                 (\<exists>col\<in>set [''ENGU12'', ''ELANU12'', ''LITU12''].
                    \<exists>s. map_of (columns recs_two) col = Some s \<and> s ! i \<noteq> Str '''')
            then 1 else 0)"
    using C9_english_u34_same_mask [OF h] by blast
  have "fl ! 0 = Num 0" "fl ! 1 = Num 1"
    using v [rule_format, of 0] v [rule_format, of 1]
    by (simp_all add: n k numeral_2_eq_2 Ex_less_Suc)
  then have "fl = [Num 0, Num 1]"
    using r(5) n(2) by (auto simp: list_eq_iff_nth_eq less_Suc_eq numeral_2_eq_2)
  then show ?thesis using r h by blast
qed







lemma map_of_filter_fst:
  "map_of (filter (\<lambda>p. fst p \<noteq> c) ps) k = (if k = c then None else map_of ps k)"
  by (induction ps) auto

lemma nrows_drop_col [simp]: "nrows (drop_col c f) = nrows f"
  by (simp add: drop_col_def)

lemma map_of_drop_col:
  "map_of (columns (drop_col c f)) k = (if k = c then None else map_of (columns f) k)"
  by (simp add: drop_col_def map_of_filter_fst)

lemma has_col_drop_col: "has_col (drop_col c f) k = (k \<noteq> c \<and> has_col f k)"
  by (simp add: has_col_def map_of_drop_col)

lemma getcol_drop_col: "k \<noteq> c \<Longrightarrow> getcol (drop_col c f) k = getcol f k"
  by (simp add: getcol_def map_of_drop_col)

lemma fetch_drop_col: "cols_of_sexpr x \<noteq> c \<Longrightarrow> fetch (drop_col c res) x = fetch res x"
  by (cases x) (simp_all add: getcol_drop_col sget_def map_of_drop_col split: option.splits)

lemma eval_drop_col: "c \<notin> set (cols_of e) \<Longrightarrow> eval (drop_col c res) e = eval res e"
  by (induction e) (simp_all add: fetch_drop_col cong: sum.case_cong)

lemma the_mask_drop_col: "c \<notin> set (cols_of e) \<Longrightarrow> the_mask (drop_col c res) e = the_mask res e"
  by (simp add: the_mask_def eval_drop_col)

lemma cols_of_foldl_mono:
  "set (cols_of m0) \<subseteq>
     set (cols_of (foldl (\<lambda>m col. if has_col res col then Or m (NeS (Res col) v) else m) m0 cs))"
proof (induction cs arbitrary: m0)
  case Nil
  show ?case by simp
next
  case (Cons col cs)
  show ?case
  proof (cases "has_col res col")
    case True
    have "set (cols_of m0) \<subseteq> set (cols_of (Or m0 (NeS (Res col) v)))" by auto
    also note Cons.IH [of "Or m0 (NeS (Res col) v)"]
    finally show ?thesis using True by simp
  next
    case False
    then show ?thesis using Cons.IH [of m0] by simp
  qed
qed

lemma foldl_drop_col:
  assumes "c \<notin> set (cols_of (foldl (\<lambda>m col. if has_col res col then Or m (NeS (Res col) v) else m) m0 cs))"
  shows "foldl (\<lambda>m col. if has_col (drop_col c res) col then Or m (NeS (Res col) v) else m) m0 cs =
         foldl (\<lambda>m col. if has_col res col then Or m (NeS (Res col) v) else m) m0 cs"
  using assms
proof (induction cs arbitrary: m0)
  case Nil
  show ?case by simp
next
  case (Cons col cs)
  show ?case
  proof (cases "has_col res col")
    case True
    have "col \<in> set (cols_of (Or m0 (NeS (Res col) v)))" by simp
    then have "col \<in> set (cols_of (foldl (\<lambda>m col. if has_col res col then Or m (NeS (Res col) v) else m)
        (Or m0 (NeS (Res col) v)) cs))"
      using cols_of_foldl_mono by blast
    then have "col \<noteq> c" using Cons.prems True by auto
    then have "has_col (drop_col c res) col" using True by (simp add: has_col_drop_col)
    then show ?thesis using True Cons.IH [of "Or m0 (NeS (Res col) v)"] Cons.prems by simp
  next
    case False
    then have "\<not> has_col (drop_col c res) col" by (simp add: has_col_drop_col)
    then show ?thesis using False Cons.IH [of m0] Cons.prems by simp
  qed
qed

lemma english_drop_col:
  "c \<notin> set (cols_of (mask_any_u12_english res)) \<Longrightarrow>
   mask_any_u12_english (drop_col c res) = mask_any_u12_english res"
  unfolding mask_any_u12_english_def by (rule foldl_drop_col)

lemma calls_english_alt:
  "calls_english res =
     map (\<lambda>n. (mask_any_u12_english res, n)) [''English U34'', ''English Language U34'', ''Literature U34'']"
  by (simp add: calls_english_def)

lemma pair_map_mem: "(e, s) \<in> set (map (\<lambda>n. (M, n)) ns) \<longleftrightarrow> e = M \<and> s \<in> set ns"
  by auto

lemma english_drop_mem:
  assumes "(e, s) \<in> set (calls_english res)" and "c \<notin> set (cols_of e)"
  shows "(e, s) \<in> set (calls_english (drop_col c res))"
proof -
  from assms(1) have e: "e = mask_any_u12_english res"
    and s: "s \<in> set [''English U34'', ''English Language U34'', ''Literature U34'']"
    unfolding calls_english_alt pair_map_mem by blast+
  have "mask_any_u12_english (drop_col c res) = e"
    using assms(2) unfolding e by (rule english_drop_col)
  then show ?thesis
    unfolding calls_english_alt pair_map_mem using s by blast
qed

lemma append3_mem:
  "p \<in> set (A @ E @ B) \<Longrightarrow> (p \<in> set E \<Longrightarrow> p \<in> set E') \<Longrightarrow> p \<in> set (A @ E' @ B)"
  by auto

lemma catalog_split:
  "catalog res =
     (calls_before_svf @ [(svf_rule, ''Social Values in Film'')] @ calls_year9b @ calls_year10 @
      calls_u12 @ calls_u34a) @ calls_english res @ calls_u34b"
  by (simp add: catalog_def calls_after_svf_def)

lemma catalog_drop_col:
  assumes "(e, s) \<in> set (catalog res)" and "c \<notin> set (cols_of e)"
  shows "(e, s) \<in> set (catalog (drop_col c res))"
  using assms(1) unfolding catalog_split
  by (rule append3_mem) (rule english_drop_mem [OF _ assms(2)])

lemma cols_of_svf_rule: "''SVF'' \<in> set (cols_of svf_rule)"
  by (simp add: svf_rule_def)

lemma stmt_for_drop_col:
  assumes "(e, s) \<in> set (catalog res)" and "c \<notin> set (cols_of e)"
  shows "stmt_for (drop_col c res) (e, s) = stmt_for res (e, s)"
proof (cases "s = ''Social Values in Film''")
  case True
  have "e = svf_rule"
    using assms(1) svf_in_catalog [of res] unfolding True by (rule same_subject_same_rule)
  then have "c \<notin> set (cols_of svf_rule)" using assms(2) by simp
  then have "''SVF'' \<noteq> c" using cols_of_svf_rule by blast
  then have "has_col (drop_col c res) ''SVF'' = has_col res ''SVF''"
    by (simp add: has_col_drop_col)
  then show ?thesis by (simp add: stmt_for_def)
next
  case False
  then show ?thesis by (simp add: stmt_for_def)
qed

lemma written_cong:
  "the_mask r1 e = the_mask r2 e \<Longrightarrow>
   written r1 stu sid n (stmt_for r (e, s)) = written r2 stu sid n (stmt_for r (e, s))"
  by (simp add: stmt_for_def)

text \<open>
  Claim C2, as the code has it. Removing an optional column from the records table leaves
  the run without error and leaves unchanged the flag column of every subject whose
  predicate does not name that column.
\<close>

theorem C2_removed_column_amended:
  assumes "c \<noteq> ''StuID''" and "c \<noteq> ''Y''" and "c \<noteq> ''CG''"
    and "apply_prerequisites res df = Inr df1"
    and "(e, s) \<in> set (catalog res)" and "c \<notin> set (cols_of e)"
  shows "\<exists>df2. apply_prerequisites (drop_col c res) df = Inr df2 \<and>
           map_of (columns df2) s = map_of (columns df1) s"
proof -
  let ?r = "drop_col c res"
  from returns_has_required [OF assms(4)]
  have cg: "has_col res ''CG''" and y: "has_col res ''Y''"
    and st: "has_col res ''StuID''" and d: "has_col df ''Student ID''" by blast+
  obtain stu where stu: "getcol res ''StuID'' = Inr stu" using st has_col_getcol by blast
  obtain sid where sid: "getcol df ''Student ID'' = Inr sid" using d has_col_getcol by blast
  have cg': "has_col ?r ''CG''" using cg assms(3) by (simp add: has_col_drop_col)
  have y': "has_col ?r ''Y''" using y assms(2) by (simp add: has_col_drop_col)
  have stu': "getcol ?r ''StuID'' = Inr stu" using stu assms(1) by (simp add: getcol_drop_col)
  have m': "(e, s) \<in> set (catalog ?r)" using assms(5,6) by (rule catalog_drop_col)
  obtain d1 where a1: "apply_prerequisites res df = Inr d1"
    and c1: "map_of (columns d1) (snd (e, s)) = Some (written res stu sid (nrows df) (stmt_for res (e, s)))"
    using run_result [OF cg y stu sid assms(5)] by blast
  obtain d2 where a2: "apply_prerequisites ?r df = Inr d2"
    and c2: "map_of (columns d2) (snd (e, s)) = Some (written ?r stu sid (nrows df) (stmt_for ?r (e, s)))"
    using run_result [OF cg' y' stu' sid m'] by blast
  have "written ?r stu sid (nrows df) (stmt_for ?r (e, s)) =
        written ?r stu sid (nrows df) (stmt_for res (e, s))"
    using stmt_for_drop_col [OF assms(5,6)] by simp
  also have "\<dots> = written res stu sid (nrows df) (stmt_for res (e, s))"
    using the_mask_drop_col [OF assms(6)] by (rule written_cong)
  finally have "map_of (columns d2) s = map_of (columns d1) s"
    using c1 c2 by simp
  moreover have "d1 = df1" using a1 assms(4) by simp
  ultimately show ?thesis using a2 by blast
qed

lemma recs_arde_facts:
  "wf_frame recs_arde" "has_col recs_arde ''CG''" "has_col recs_arde ''Y''"
  "getcol recs_arde ''StuID'' = Inr [Str ''S1'']" "getcol recs_arde ''Y'' = Inr [Num 8]"
  "getcol recs_arde ''CG'' = Inr [Str ''B'']" "nrows recs_arde = 1"
  "map_of (columns recs_arde) ''ARDE'' = Some [Str '''']"
  by (simp_all add: recs_arde_def wf_frame_def has_col_def getcol_def)

lemma drop_arde_facts:
  "columns (drop_col ''ARDE'' recs_arde) =
     [(''StuID'', [Str ''S1'']), (''Y'', [Num 8]), (''CG'', [Str ''B''])]"
  "has_col (drop_col ''ARDE'' recs_arde) ''CG''" "has_col (drop_col ''ARDE'' recs_arde) ''Y''"
  "getcol (drop_col ''ARDE'' recs_arde) ''StuID'' = Inr [Str ''S1'']"
  "getcol (drop_col ''ARDE'' recs_arde) ''Y'' = Inr [Num 8]"
  "nrows (drop_col ''ARDE'' recs_arde) = 1"
  "map_of (columns (drop_col ''ARDE'' recs_arde)) ''ARDE'' = None"
  by (simp_all add: recs_arde_def drop_col_def has_col_def getcol_def)

theorem C2_removed_column_amended_witness:
  "''ARDE'' \<noteq> ''StuID'' \<and> ''ARDE'' \<noteq> ''Y'' \<and> ''ARDE'' \<noteq> ''CG'' \<and>
   (Or y8 y9, ''Drama 3'') \<in> set (catalog recs_arde) \<and>
   ''ARDE'' \<notin> set (cols_of (Or y8 y9)) \<and>
   (\<exists>d1 d2. apply_prerequisites recs_arde roster_s1 = Inr d1 \<and>
      apply_prerequisites (drop_col ''ARDE'' recs_arde) roster_s1 = Inr d2 \<and>
      map_of (columns d2) ''Drama 3'' = map_of (columns d1) ''Drama 3'')"
proof -
  have h: "''ARDE'' \<noteq> ''StuID''" "''ARDE'' \<noteq> ''Y''" "''ARDE'' \<noteq> ''CG''"
    by simp_all
  have c: "(Or y8 y9, ''Drama 3'') \<in> set (catalog recs_arde)"
    by (simp add: catalog_defs)
  have n: "''ARDE'' \<notin> set (cols_of (Or y8 y9))"
    by (simp add: y8_def y9_def)
  obtain d1 where a: "apply_prerequisites recs_arde roster_s1 = Inr d1"
    using apply_ok [OF recs_arde_facts(2,3,4) roster_s1_facts(2)] by blast
  obtain d2 where "apply_prerequisites (drop_col ''ARDE'' recs_arde) roster_s1 = Inr d2"
    and "map_of (columns d2) ''Drama 3'' = map_of (columns d1) ''Drama 3''"
    using C2_removed_column_amended [OF h a c n] by blast
  then show ?thesis using h c n a by blast
qed

text \<open>
  Claim C2 as stated fails on a subject gated on a column being empty. The records have one
  row (StuID S1, Y 8, CG B) with the column ARDE holding the empty string; the roster has
  the one row S1. Architecture and Design is 1. With the column ARDE removed and nothing
  else changed, \<^verbatim>\<open>sget('ARDE') == ''\<close> is false of the row and Architecture and Design is 0,
  though its rule has no branch on the column's absence.
\<close>

theorem C2_removed_column_counterexample:
  "(And (EqS (SGet ''ARDE'') '''') (Or y8 y9), ''Architecture and Design'') \<in> set (catalog recs_arde) \<and>
   columns recs_arde =
     [(''StuID'', [Str ''S1'']), (''Y'', [Num 8]), (''CG'', [Str ''B'']), (''ARDE'', [Str ''''])] \<and>
   columns (drop_col ''ARDE'' recs_arde) =
     [(''StuID'', [Str ''S1'']), (''Y'', [Num 8]), (''CG'', [Str ''B''])] \<and>
   (\<exists>d. apply_prerequisites recs_arde roster_s1 = Inr d \<and>
      map_of (columns d) ''Architecture and Design'' = Some [Num 1]) \<and>
   (\<exists>d. apply_prerequisites (drop_col ''ARDE'' recs_arde) roster_s1 = Inr d \<and>
      map_of (columns d) ''Architecture and Design'' = Some [Num 0])"
proof -
  let ?e = "And (EqS (SGet ''ARDE'') '''') (Or y8 y9)"
  let ?r = "drop_col ''ARDE'' recs_arde"
  let ?w = "written recs_arde [Str ''S1''] [Str ''S1''] (nrows roster_s1)"
  let ?w' = "written ?r [Str ''S1''] [Str ''S1''] (nrows roster_s1)"
  have c: "(?e, ''Architecture and Design'') \<in> set (catalog recs_arde)"
    by (simp add: catalog_defs)
  have c': "(?e, ''Architecture and Design'') \<in> set (catalog ?r)"
    by (simp add: catalog_defs)
  have e: "eval recs_arde ?e = Inr [True]"
    by (simp add: y8_def y9_def mask_defs recs_arde_facts)
  have e': "eval ?r ?e = Inr [False]"
    by (simp add: y8_def y9_def mask_defs drop_arde_facts recs_arde_facts(7))
  have "?w (stmt_for recs_arde (?e, ''Architecture and Design'')) = [Num 1]"
    using e by (simp add: stmt_for_def the_mask_def select_def flags_def)
  moreover obtain d where "apply_prerequisites recs_arde roster_s1 = Inr d"
    and "map_of (columns d) (snd (?e, ''Architecture and Design'')) =
         Some (?w (stmt_for recs_arde (?e, ''Architecture and Design'')))"
    using run_result [OF recs_arde_facts(2,3,4) roster_s1_facts(2) c] by blast
  ultimately have one: "\<exists>d. apply_prerequisites recs_arde roster_s1 = Inr d \<and>
      map_of (columns d) ''Architecture and Design'' = Some [Num 1]" by auto
  have "?w' (stmt_for ?r (?e, ''Architecture and Design'')) = [Num 0]"
    using e' by (simp add: stmt_for_def the_mask_def select_def flags_def)
  moreover obtain d' where "apply_prerequisites ?r roster_s1 = Inr d'"
    and "map_of (columns d') (snd (?e, ''Architecture and Design'')) =
         Some (?w' (stmt_for ?r (?e, ''Architecture and Design'')))"
    using run_result [OF drop_arde_facts(2,3,4) roster_s1_facts(2) c'] by blast
  ultimately have two: "\<exists>d. apply_prerequisites ?r roster_s1 = Inr d \<and>
      map_of (columns d) ''Architecture and Design'' = Some [Num 0]" by auto
  have k: "columns recs_arde =
     [(''StuID'', [Str ''S1'']), (''Y'', [Num 8]), (''CG'', [Str ''B'']), (''ARDE'', [Str ''''])]"
    by (simp add: recs_arde_def)
  show ?thesis using c k drop_arde_facts(1) one two by blast
qed

end
